theory Spec2Isabelle
  imports Complex_Main
begin

section \<open>The MQTT exporter: message-to-metric normalisation\<close>

text \<open>
  A shallow embedding of \<^verbatim>\<open>files/app/zigbeemqttexporter.py\<close>: the scalar coercer
  \<^verbatim>\<open>_parse_metric\<close>, the recursive extractor \<^verbatim>\<open>_parse_metrics\<close>, the topic
  normaliser \<^verbatim>\<open>_normalize_shelly_msg\<close>, \<^verbatim>\<open>_parse_message\<close> and the callback
  \<^verbatim>\<open>expose_metrics\<close>.

  Conventions of the model.
  \<^item> A Python \<^verbatim>\<open>bytes\<close> is the list of its bytes, and a Python \<^verbatim>\<open>str\<close> is the list
    of the bytes of its UTF-8 encoding, both \<open>char list\<close>. A string literal of the source
    is ASCII and is its own encoding. The operations the source applies with ASCII
    arguments (\<^verbatim>\<open>replace\<close>, \<^verbatim>\<open>split\<close>, \<^verbatim>\<open>in\<close>, the regular expression on parentheses)
    give the same result on the encoding as on the code points, since an ASCII byte
    never lies inside the encoding of another character.
  \<^item> Exceptions are values of the type \<open>error\<close>. A pure function that can raise returns
    \<open>error + 'a\<close>, with \<open>Inl\<close> for the exception that leaves it; a function on the
    exporter's state returns \<open>(error \<times> exporter) + exporter\<close>, where \<open>Inl (e, st)\<close> is
    the exception together with the state at the moment it is raised.
  \<^item> The two module globals \<^verbatim>\<open>prom_metrics\<close> and \<^verbatim>\<open>prom_msg_counter\<close> are the
    fields of the record \<open>exporter\<close>, passed in and returned.
  \<^item> Calls into libraries are the fields of the record \<open>pylib\<close>, a parameter of every
    function that calls them: \<^verbatim>\<open>bytes.decode\<close>, \<^verbatim>\<open>str.upper\<close> (Unicode case mapping),
    \<^verbatim>\<open>json.loads\<close>, \<^verbatim>\<open>json.dumps\<close>, \<^verbatim>\<open>float\<close> on text and on integers, and the
    constructor \<^verbatim>\<open>Gauge\<close> of the metrics library. The type variable \<open>'f\<close> is the type
    of Python floats.
  \<^item> \<^verbatim>\<open>labels(...)\<close> with the one declared label name and \<^verbatim>\<open>inc()\<close> do not raise;
    logging is left out.
\<close>

subsection \<open>Python values and exceptions\<close>

type_synonym bytes = "char list"

datatype 'f pyval =
    VNone
  | VBool bool
  | VInt int
  | VFloat 'f
  | VStr string
  | VBytes bytes
  | VList "'f pyval list"
  | VDict "(string \<times> 'f pyval) list"

text \<open>
  A \<^verbatim>\<open>dict\<close> is the list of its items in iteration order. The exceptions are the
  classes the source names or can meet; \<^verbatim>\<open>UnicodeDecodeError\<close> and
  \<^verbatim>\<open>json.JSONDecodeError\<close> are subclasses of \<^verbatim>\<open>ValueError\<close>, which is what
  \<^verbatim>\<open>except ValueError\<close> tests.
\<close>

datatype error =
    ValueError
  | UnicodeDecodeError
  | JSONDecodeError
  | AttributeError
  | RecursionError
  | OverflowError
  | TypeError
  | KeyError

fun is_ValueError :: "error \<Rightarrow> bool" where
  "is_ValueError ValueError = True"
| "is_ValueError UnicodeDecodeError = True"
| "is_ValueError JSONDecodeError = True"
| "is_ValueError AttributeError = False"
| "is_ValueError RecursionError = False"
| "is_ValueError OverflowError = False"
| "is_ValueError TypeError = False"
| "is_ValueError KeyError = False"

text \<open>The argument of \<^verbatim>\<open>json.loads\<close>: the message's bytes, or text made by \<^verbatim>\<open>json.dumps\<close>.\<close>

datatype payload = PBytes bytes | PStr string

record 'f pylib =
  bytes_decode :: "bytes \<Rightarrow> string option"
  str_upper :: "string \<Rightarrow> string"
  json_loads :: "payload \<Rightarrow> error + 'f pyval"
  json_dumps :: "'f pyval \<Rightarrow> string"
  float_of_str :: "string \<Rightarrow> 'f option"
  float_of_int :: "int \<Rightarrow> 'f option"
  gauge_new :: "string \<Rightarrow> bool"

text \<open>
  \<open>bytes_decode b = None\<close> stands for \<^verbatim>\<open>b.decode()\<close> raising \<^verbatim>\<open>UnicodeDecodeError\<close>,
  \<open>float_of_str s = None\<close> for \<^verbatim>\<open>float(s)\<close> raising \<^verbatim>\<open>ValueError\<close>, and
  \<open>float_of_int n = None\<close> for \<^verbatim>\<open>float(n)\<close> raising \<^verbatim>\<open>OverflowError\<close> (an integer too
  large for a float). \<open>str_upper\<close> is \<^verbatim>\<open>str.upper\<close>, which maps every cased character
  of Unicode, not only the letters a to z.

  \<open>gauge_new name\<close> says that \<^verbatim>\<open>Gauge(name, ..., [TOPIC_LABEL])\<close> is accepted; otherwise
  it raises \<^verbatim>\<open>ValueError\<close> (a name outside the metric-name syntax, or one that the
  registry already holds: the counter of line 40 holds its own name with and without the
  suffixes \<^verbatim>\<open>_total\<close> and \<^verbatim>\<open>_created\<close>). It depends on the name only: besides what the
  registry holds when the module is loaded, the registry holds the gauges of
  \<^verbatim>\<open>prom_metrics\<close>, each under its own name, and for such a name the constructor is
  not called again (line 72).
\<close>

subsection \<open>String operations\<close>

text \<open>\<^verbatim>\<open>s.replace(a, b)\<close> for one-character \<^verbatim>\<open>a\<close> and \<^verbatim>\<open>b\<close>, and \<^verbatim>\<open>s.replace(a, "")\<close>.\<close>

definition replace_char :: "char \<Rightarrow> char \<Rightarrow> string \<Rightarrow> string" where
  "replace_char a b s = map (\<lambda>c. if c = a then b else c) s"

definition remove_char :: "char \<Rightarrow> string \<Rightarrow> string" where
  "remove_char a s = filter (\<lambda>c. c \<noteq> a) s"

text \<open>\<^verbatim>\<open>s.split(sep)\<close> for a one-character separator: never the empty list.\<close>

fun split_str :: "char \<Rightarrow> string \<Rightarrow> string list" where
  "split_str sep [] = [[]]"
| "split_str sep (c # cs) =
     (if c = sep then [] # split_str sep cs
      else (case split_str sep cs of
              [] \<Rightarrow> [[c]]
            | w # ws \<Rightarrow> (c # w) # ws))"

text \<open>\<^verbatim>\<open>sub in s\<close> on strings.\<close>

fun startswith :: "string \<Rightarrow> string \<Rightarrow> bool" where
  "startswith s [] = True"
| "startswith [] (p # ps) = False"
| "startswith (c # cs) (p # ps) = (c = p \<and> startswith cs ps)"

fun str_contains :: "string \<Rightarrow> string \<Rightarrow> bool" where
  "str_contains sub [] = (sub = [])"
| "str_contains sub (c # cs) = (startswith (c # cs) sub \<or> str_contains sub cs)"

text \<open>
  \<^verbatim>\<open>re.sub(r"\((.*?)\)", "", s)\<close>. A match starts at an opening parenthesis and ends
  at the first closing one after it, provided no newline lies between (the dot does not
  match a newline); \<open>paren_end\<close> returns what follows that match. Matches are taken
  leftmost first and do not overlap.
\<close>

fun paren_end :: "string \<Rightarrow> string option" where
  "paren_end [] = None"
| "paren_end (c # cs) =
     (if c = CHR '')'' then Some cs
      else if c = CHR 0x0A then None
      else paren_end cs)"

function re_sub_parens :: "string \<Rightarrow> string" where
  "re_sub_parens [] = []"
| "re_sub_parens (c # cs) =
     (if c = CHR ''('' then
        (case paren_end cs of
           Some r \<Rightarrow> re_sub_parens r
         | None \<Rightarrow> c # re_sub_parens cs)
      else c # re_sub_parens cs)"
  by pat_completeness auto
termination
proof (relation "measure length")
  have shorter: "length r \<le> length cs" if "paren_end cs = Some r" for cs r
    using that by (induction cs) (auto split: if_splits)
  fix c :: char and cs r
  assume "c = CHR ''(''" and "paren_end cs = Some r"
  then show "(r, c # cs) \<in> measure length"
    using shorter [of cs r] by simp
qed auto

subsection \<open>Configuration\<close>

text \<open>
  The module constants read from the environment (lines 15 to 18):
  \<^verbatim>\<open>PREFIX = os.getenv("PROMETHEUS_PREFIX", "mqtt_")\<close>,
  \<^verbatim>\<open>TOPIC_LABEL = os.getenv("TOPIC_LABEL", "topic")\<close>,
  \<^verbatim>\<open>IGNORED_TOPICS = os.getenv("MQTT_IGNORED_TOPICS", "").split(",")\<close>.
\<close>

record config =
  PREFIX :: string
  TOPIC_LABEL :: string
  IGNORED_TOPICS :: "string list"

definition getenv :: "(string \<rightharpoonup> string) \<Rightarrow> string \<Rightarrow> string \<Rightarrow> string" where
  "getenv env name dflt = (case env name of None \<Rightarrow> dflt | Some v \<Rightarrow> v)"

definition load_config :: "(string \<rightharpoonup> string) \<Rightarrow> config" where
  "load_config env =
     \<lparr> PREFIX = getenv env ''PROMETHEUS_PREFIX'' ''mqtt_'',
       TOPIC_LABEL = getenv env ''TOPIC_LABEL'' ''topic'',
       IGNORED_TOPICS = split_str CHR '','' (getenv env ''MQTT_IGNORED_TOPICS'' '''') \<rparr>"

definition default_config :: config where
  "default_config = load_config Map.empty"

subsection \<open>The metric registry and the message counter\<close>

text \<open>
  A gauge has one label dimension: it maps a label value (the topic) to the value last
  set for it. \<^verbatim>\<open>prom_metrics\<close> maps a metric name to its gauge; \<^verbatim>\<open>prom_msg_counter\<close>
  maps a label value to the count of its child.
\<close>

type_synonym 'f gauge = "string \<rightharpoonup> 'f pyval"

record 'f exporter =
  prom_metrics :: "string \<rightharpoonup> 'f gauge"
  prom_msg_counter :: "string \<rightharpoonup> nat"

definition init_exporter :: "'f exporter" where
  "init_exporter = \<lparr> prom_metrics = Map.empty, prom_msg_counter = Map.empty \<rparr>"

text \<open>The result of a function on the state: the state it returns, or an exception and the
  state at the raise.\<close>

type_synonym 'f result = "(error \<times> 'f exporter) + 'f exporter"

text \<open>
  Lines 72 to 75: \<^verbatim>\<open>if not prom_metrics.get(name): prom_metrics[name] = Gauge(...)\<close>.
  A gauge object is truthy, so the test is whether the name is absent. When the
  constructor raises, nothing is assigned.
\<close>

definition create_metric :: "'f pylib \<Rightarrow> string \<Rightarrow> 'f exporter \<Rightarrow> 'f result" where
  "create_metric L name st =
     (case prom_metrics st name of
        None \<Rightarrow>
          if gauge_new L name
          then Inr (st\<lparr>prom_metrics := (prom_metrics st)(name \<mapsto> Map.empty)\<rparr>)
          else Inl (ValueError, st)
      | Some g \<Rightarrow> Inr st)"

text \<open>
  \<^verbatim>\<open>float(value)\<close>, which \<^verbatim>\<open>Gauge.set\<close> applies to its argument. The extractor passes
  it a result of the coercer, which is a \<^verbatim>\<open>bool\<close>, an \<^verbatim>\<open>int\<close> or a \<^verbatim>\<open>float\<close>; the
  other cases are never reached from the extractor.
\<close>

fun to_float :: "'f pylib \<Rightarrow> 'f pyval \<Rightarrow> error + 'f" where
  "to_float L (VFloat f) = Inr f"
| "to_float L (VInt n) =
     (case float_of_int L n of None \<Rightarrow> Inl OverflowError | Some f \<Rightarrow> Inr f)"
| "to_float L (VBool b) =
     (case float_of_int L (if b then 1 else 0) of None \<Rightarrow> Inl OverflowError | Some f \<Rightarrow> Inr f)"
| "to_float L (VStr s) =
     (case float_of_str L s of None \<Rightarrow> Inl ValueError | Some f \<Rightarrow> Inr f)"
| "to_float L (VBytes b) =
     (case float_of_str L b of None \<Rightarrow> Inl ValueError | Some f \<Rightarrow> Inr f)"
| "to_float L VNone = Inl TypeError"
| "to_float L (VList xs) = Inl TypeError"
| "to_float L (VDict d) = Inl TypeError"

text \<open>
  Line 79: \<^verbatim>\<open>prom_metrics[name].labels(**{TOPIC_LABEL: topic}).set(value)\<close>. The
  subscript raises \<^verbatim>\<open>KeyError\<close> on a name that is absent, and \<^verbatim>\<open>set\<close> stores
  \<^verbatim>\<open>float(value)\<close>.
\<close>

definition gauge_set ::
  "'f pylib \<Rightarrow> string \<Rightarrow> string \<Rightarrow> 'f pyval \<Rightarrow> 'f exporter \<Rightarrow> 'f result" where
  "gauge_set L name topic v st =
     (case prom_metrics st name of
        None \<Rightarrow> Inl (KeyError, st)
      | Some g \<Rightarrow>
          (case to_float L v of
             Inl e \<Rightarrow> Inl (e, st)
           | Inr f \<Rightarrow> Inr (st\<lparr>prom_metrics := (prom_metrics st)(name \<mapsto> g(topic \<mapsto> VFloat f))\<rparr>)))"

text \<open>Line 179: \<^verbatim>\<open>prom_msg_counter.labels(**{TOPIC_LABEL: topic}).inc()\<close>.\<close>

definition counter_inc :: "string \<Rightarrow> 'f exporter \<Rightarrow> 'f exporter" where
  "counter_inc topic st =
     st\<lparr>prom_msg_counter := (prom_msg_counter st)
           (topic \<mapsto> (case prom_msg_counter st topic of None \<Rightarrow> 1 | Some n \<Rightarrow> Suc n))\<rparr>"

definition counter_value :: "'f exporter \<Rightarrow> string \<Rightarrow> nat" where
  "counter_value st topic = (case prom_msg_counter st topic of None \<Rightarrow> 0 | Some n \<Rightarrow> n)"

definition gauge_value :: "'f exporter \<Rightarrow> string \<Rightarrow> string \<Rightarrow> 'f pyval option" where
  "gauge_value st name topic =
     (case prom_metrics st name of None \<Rightarrow> None | Some g \<Rightarrow> g topic)"

subsection \<open>The scalar coercer\<close>

definition STATE_VALUES :: "(string \<times> int) list" where
  "STATE_VALUES = [(''ON'', 1), (''OFF'', 0), (''TRUE'', 1), (''FALSE'', 0)]"

text \<open>Lines 96 to 104, the branch for a \<^verbatim>\<open>str\<close>.\<close>

definition parse_str :: "'f pylib \<Rightarrow> string \<Rightarrow> error + 'f pyval" where
  "parse_str L s =
     (let data = str_upper L s in
      case map_of STATE_VALUES data of
        Some n \<Rightarrow> Inr (VInt n)
      | None \<Rightarrow>
          (case float_of_str L data of
             Some f \<Rightarrow> Inr (VFloat f)
           | None \<Rightarrow> Inl ValueError))"

text \<open>
  \<^verbatim>\<open>_parse_metric\<close>. A \<^verbatim>\<open>bool\<close> is an \<^verbatim>\<open>int\<close> in Python, so it is returned as it is.
\<close>

fun parse_metric :: "'f pylib \<Rightarrow> 'f pyval \<Rightarrow> error + 'f pyval" where
  "parse_metric L (VBool b) = Inr (VBool b)"
| "parse_metric L (VInt n) = Inr (VInt n)"
| "parse_metric L (VFloat f) = Inr (VFloat f)"
| "parse_metric L (VBytes b) =
     (case bytes_decode L b of
        None \<Rightarrow> Inl UnicodeDecodeError
      | Some s \<Rightarrow> parse_str L s)"
| "parse_metric L (VStr s) = parse_str L s"
| "parse_metric L VNone = Inl ValueError"
| "parse_metric L (VList xs) = Inl ValueError"
| "parse_metric L (VDict d) = Inl ValueError"

subsection \<open>The metric name and the recursive extractor\<close>

text \<open>Lines 70 and 71: the name of the gauge of field \<open>metric\<close> under \<open>prefix\<close>.\<close>

definition metric_name :: "config \<Rightarrow> string \<Rightarrow> string \<Rightarrow> string" where
  "metric_name C prefix metric =
     re_sub_parens
       (replace_char CHR '' '' CHR ''_'' (remove_char CHR ''.'' (PREFIX C @ prefix @ metric)))"

text \<open>
  \<^verbatim>\<open>_parse_metrics(data, topic, prefix)\<close>, as recursion over \<^verbatim>\<open>data.items()\<close>. The
  \<^verbatim>\<open>try\<close> holds the call of the coercer only (lines 63 to 67), and its handler
  \<^verbatim>\<open>except ValueError\<close> lets any other exception through. The recursive call (line 60),
  the constructor (line 73) and the set (line 79) are outside it: what they raise leaves
  the extractor.
\<close>

function parse_metrics ::
  "'f pylib \<Rightarrow> config \<Rightarrow> (string \<times> 'f pyval) list \<Rightarrow> string \<Rightarrow> string \<Rightarrow> 'f exporter
     \<Rightarrow> 'f result" where
  "parse_metrics L C [] topic prefix st = Inr st"
| "parse_metrics L C ((metric, v) # rest) topic prefix st =
     (case v of
        VDict d \<Rightarrow>
          (case parse_metrics L C d topic (prefix @ metric @ ''_'') st of
             Inl raised \<Rightarrow> Inl raised
           | Inr st1 \<Rightarrow> parse_metrics L C rest topic prefix st1)
      | _ \<Rightarrow>
          (case parse_metric L v of
             Inl err \<Rightarrow>
               if is_ValueError err then parse_metrics L C rest topic prefix st
               else Inl (err, st)
           | Inr metric_value \<Rightarrow>
               (case create_metric L (metric_name C prefix metric) st of
                  Inl raised \<Rightarrow> Inl raised
                | Inr st1 \<Rightarrow>
                    (case gauge_set L (metric_name C prefix metric) topic metric_value st1 of
                       Inl raised \<Rightarrow> Inl raised
                     | Inr st2 \<Rightarrow> parse_metrics L C rest topic prefix st2))))"
  by pat_completeness auto
termination
  by (relation "measure (\<lambda>(L, C, data, topic, prefix, st).
                   size_list (size_prod (\<lambda>_. 0) size) data)") auto

subsection \<open>Topic normalisation and ingestion\<close>

text \<open>
  \<^verbatim>\<open>_normalize_shelly_msg\<close>. \<^verbatim>\<open>info[1]\<close> raises \<^verbatim>\<open>IndexError\<close> when the topic has no
  slash; the handler then leaves topic and payload as they were.
  \<^verbatim>\<open>payload.decode()\<close> is inside the same \<^verbatim>\<open>try\<close>, whose handler does not catch
  \<^verbatim>\<open>UnicodeDecodeError\<close>.
\<close>

definition normalize_shelly_msg ::
  "'f pylib \<Rightarrow> string \<Rightarrow> bytes \<Rightarrow> error + (string \<times> payload)" where
  "normalize_shelly_msg L topic payload =
     (let info = split_str CHR ''/'' topic in
      case info of
        a # b # rest \<Rightarrow>
          (case bytes_decode L payload of
             None \<Rightarrow> Inl UnicodeDecodeError
           | Some text \<Rightarrow>
               Inr (a @ ''/'' @ b, PStr (json_dumps L (VDict [(last info, VStr text)]))))
      | _ \<Rightarrow> Inr (topic, PBytes payload))"

text \<open>Lines 137 and 138 of \<^verbatim>\<open>_parse_message\<close>.\<close>

definition normalize :: "'f pylib \<Rightarrow> string \<Rightarrow> bytes \<Rightarrow> error + (string \<times> payload)" where
  "normalize L topic payload =
     (if str_contains ''shellies'' topic then normalize_shelly_msg L topic payload
      else Inr (topic, PBytes payload))"

text \<open>
  What \<^verbatim>\<open>_parse_message\<close> returns as payload: the decoded \<^verbatim>\<open>dict\<close>, or the text that
  \<^verbatim>\<open>json.dumps\<close> made of the wrapped value (line 158).
\<close>

datatype 'f parsed = Mapping "(string \<times> 'f pyval) list" | Dumped string

definition parse_message ::
  "'f pylib \<Rightarrow> string \<Rightarrow> bytes \<Rightarrow> error + (string option \<times> 'f parsed option)" where
  "parse_message L topic payload =
     (case normalize L topic payload of
        Inl err \<Rightarrow> Inl err
      | Inr (topic1, payload1) \<Rightarrow>
          (let topic2 = replace_char CHR ''/'' CHR ''_'' topic1 in
           case json_loads L payload1 of
             Inl err \<Rightarrow>
               if err = JSONDecodeError \<or> err = UnicodeDecodeError then Inr (None, None)
               else Inl err
           | Inr v \<Rightarrow>
               (case v of
                  VDict d \<Rightarrow> Inr (Some topic2, Some (Mapping d))
                | _ \<Rightarrow>
                    Inr (Some topic2,
                         Some (Dumped (json_dumps L
                           (VDict [(last (split_str CHR ''/'' topic2), v)])))))))"

text \<open>Python truth of the two results, for \<^verbatim>\<open>if not topic or not payload\<close>.\<close>

fun topic_truthy :: "string option \<Rightarrow> bool" where
  "topic_truthy None = False"
| "topic_truthy (Some s) = (s \<noteq> [])"

fun payload_truthy :: "'f parsed option \<Rightarrow> bool" where
  "payload_truthy None = False"
| "payload_truthy (Some (Mapping d)) = (d \<noteq> [])"
| "payload_truthy (Some (Dumped s)) = (s \<noteq> [])"

text \<open>
  \<^verbatim>\<open>expose_metrics\<close>, the callback for one message. \<^verbatim>\<open>_parse_metrics\<close> starts with
  \<^verbatim>\<open>data.items()\<close>, which a \<^verbatim>\<open>str\<close> does not have: \<^verbatim>\<open>AttributeError\<close>. The
  callback has no handler: what \<^verbatim>\<open>_parse_message\<close> or \<^verbatim>\<open>_parse_metrics\<close> raises leaves
  it, before the counter of line 179.
\<close>

definition expose_metrics ::
  "'f pylib \<Rightarrow> config \<Rightarrow> string \<Rightarrow> bytes \<Rightarrow> 'f exporter \<Rightarrow> 'f result" where
  "expose_metrics L C topic payload st =
     (if topic \<in> set (IGNORED_TOPICS C) then Inr st
      else
        (case parse_message L topic payload of
           Inl err \<Rightarrow> Inl (err, st)
         | Inr (t, p) \<Rightarrow>
             if \<not> topic_truthy t \<or> \<not> payload_truthy p then Inr st
             else
               (case (t, p) of
                  (Some topic1, Some (Mapping data)) \<Rightarrow>
                    (case parse_metrics L C data topic1 [] st of
                       Inl raised \<Rightarrow> Inl raised
                     | Inr st1 \<Rightarrow> Inr (counter_inc topic1 st1))
                | (Some topic1, Some (Dumped s)) \<Rightarrow> Inl (AttributeError, st)
                | _ \<Rightarrow> Inr st)))"

subsection \<open>Reference notions of the specification\<close>

text \<open>
  Upper-casing of ASCII text: the letters a to z go to A to Z, every other byte stays.
  It is not the model of \<^verbatim>\<open>str.upper\<close> (that is \<open>str_upper\<close>); it says what a case
  variant of a word is, and what \<^verbatim>\<open>str.upper\<close> does on ASCII text.
\<close>

definition ascii_upper_char :: "char \<Rightarrow> char" where
  "ascii_upper_char c =
     (case map_of (zip ''abcdefghijklmnopqrstuvwxyz'' ''ABCDEFGHIJKLMNOPQRSTUVWXYZ'') c of
        Some u \<Rightarrow> u
      | None \<Rightarrow> c)"

definition ascii_upper :: "string \<Rightarrow> string" where
  "ascii_upper s = map ascii_upper_char s"

fun ascii_bytes :: "bytes \<Rightarrow> bool" where
  "ascii_bytes [] = True"
| "ascii_bytes (c # cs) = ((of_char c :: nat) < 128 \<and> ascii_bytes cs)"

text \<open>
  \<open>case_variant w s\<close>: the text \<open>s\<close> is the lower-case word \<open>w\<close> with any of its
  letters capitalised.
\<close>

fun case_variant :: "string \<Rightarrow> string \<Rightarrow> bool" where
  "case_variant [] [] = True"
| "case_variant (l # w) (c # s) = ((c = l \<or> c = ascii_upper_char l) \<and> case_variant w s)"
| "case_variant _ _ = False"

text \<open>Capitalising identifies the letter \<open>l\<close> with its capital and with nothing else.\<close>

definition folds_to :: "char \<Rightarrow> bool" where
  "folds_to l \<longleftrightarrow>
     (\<forall>c. (ascii_upper_char c = ascii_upper_char l) = (c = l \<or> c = ascii_upper_char l))"

text \<open>
  The reference coercer, after the words of the specification: a number passes through
  unchanged (a Python \<^verbatim>\<open>bool\<close> is an integer); a byte string is decoded first; a
  case variant of on, off, true, false gives 1, 0, 1, 0; any other text gives the float
  that its upper-cased form parses to; \<open>None\<close> where the specification promises no value.
\<close>

definition coerce_text :: "'f pylib \<Rightarrow> string \<Rightarrow> 'f pyval option" where
  "coerce_text L s =
     (if case_variant ''on'' s then Some (VInt 1)
      else if case_variant ''off'' s then Some (VInt 0)
      else if case_variant ''true'' s then Some (VInt 1)
      else if case_variant ''false'' s then Some (VInt 0)
      else map_option VFloat (float_of_str L (str_upper L s)))"

fun coerce_ref :: "'f pylib \<Rightarrow> 'f pyval \<Rightarrow> 'f pyval option" where
  "coerce_ref L (VBool b) = Some (VBool b)"
| "coerce_ref L (VInt n) = Some (VInt n)"
| "coerce_ref L (VFloat f) = Some (VFloat f)"
| "coerce_ref L (VStr s) = coerce_text L s"
| "coerce_ref L (VBytes b) =
     (case bytes_decode L b of None \<Rightarrow> None | Some s \<Rightarrow> coerce_text L s)"
| "coerce_ref L VNone = None"
| "coerce_ref L (VList xs) = None"
| "coerce_ref L (VDict d) = None"

text \<open>
  The inputs that are not numeric, after section 4.1 of the specification: text is
  upper-cased and looked up in the table of state words; text that is not found there
  is parsed as a float; every shape other than a number or text (null, a list, a
  mapping) is not numeric. A byte string is text once decoded; one that does not decode
  is refused by \<^verbatim>\<open>decode\<close> before any of this, with \<^verbatim>\<open>UnicodeDecodeError\<close>.
\<close>

definition state_words :: "string list" where
  "state_words = [''ON'', ''OFF'', ''TRUE'', ''FALSE'']"

definition state_word :: "'f pylib \<Rightarrow> string \<Rightarrow> bool" where
  "state_word L s \<longleftrightarrow> str_upper L s \<in> set state_words"

definition float_text :: "'f pylib \<Rightarrow> string \<Rightarrow> bool" where
  "float_text L s \<longleftrightarrow> float_of_str L (str_upper L s) \<noteq> None"


text \<open>
  The metric name of a field path (the keys from the root of the payload down to a
  leaf): the extractor reaches the leaf with the prefix made of every key but the last,
  each followed by an underscore.
\<close>

definition path_prefix :: "string list \<Rightarrow> string" where
  "path_prefix path = concat (map (\<lambda>k. k @ ''_'') (butlast path))"

definition resolve :: "config \<Rightarrow> string list \<Rightarrow> string" where
  "resolve C path = metric_name C (path_prefix path) (last path)"

text \<open>A key with no dot, space, parenthesis or underscore.\<close>

fun plain_key :: "string \<Rightarrow> bool" where
  "plain_key [] = True"
| "plain_key (c # cs) =
     (c \<noteq> CHR ''.'' \<and> c \<noteq> CHR '' '' \<and> c \<noteq> CHR ''('' \<and> c \<noteq> CHR '')'' \<and> c \<noteq> CHR ''_''
      \<and> plain_key cs)"

fun plain_path :: "string list \<Rightarrow> bool" where
  "plain_path [] = True"
| "plain_path (k # ks) = (plain_key k \<and> plain_path ks)"

text \<open>A key with no character that sanitisation touches: no dot, space or parenthesis.\<close>

fun unsanitized_key :: "string \<Rightarrow> bool" where
  "unsanitized_key [] = True"
| "unsanitized_key (c # cs) =
     (c \<noteq> CHR ''.'' \<and> c \<noteq> CHR '' '' \<and> c \<noteq> CHR ''('' \<and> c \<noteq> CHR '')'' \<and> unsanitized_key cs)"

text \<open>
  The payload that holds the one value \<open>v\<close> at the field path \<open>path\<close>: a mapping nested
  once for every key of the path but the last.
\<close>

fun nested :: "string list \<Rightarrow> 'f pyval \<Rightarrow> (string \<times> 'f pyval) list" where
  "nested [] v = []"
| "nested [k] v = [(k, v)]"
| "nested (k # k' # ks) v = [(k, VDict (nested (k' # ks) v))]"

subsection \<open>A library instance for concrete evaluation\<close>

text \<open>
  An instance of \<open>pylib\<close> with Python floats as reals. It gives the results of CPython
  and of the metrics library on the inputs evaluated in this theory: ASCII bytes decode
  to themselves and the byte 0xFF is not UTF-8; ASCII text is upper-cased letter by
  letter, and the text \<open>long_s_false\<close> (the word false written with U+017F, the long s,
  whose capital is S) goes to \<^verbatim>\<open>FALSE\<close>; the listed JSON texts decode to the listed
  values and \<^verbatim>\<open>not valid json\<close> does not; \<^verbatim>\<open>float("20.5")\<close> is 20.5 and
  \<^verbatim>\<open>float\<close> raises on the other texts evaluated (\<^verbatim>\<open>NOTANUMBER\<close>, \<^verbatim>\<open>X\<close>, the state
  words); \<^verbatim>\<open>float\<close> of a small integer is that integer, and of ten to the power 400
  it raises; \<^verbatim>\<open>Gauge\<close> refuses the three names held by the counter
  \<^verbatim>\<open>mqtt_message_total\<close> and every name outside the metric-name syntax.
\<close>

definition sample_decode :: "bytes \<Rightarrow> string option" where
  "sample_decode b = (if ascii_bytes b then Some b else None)"

definition long_s_false :: string where
  "long_s_false = [CHR ''f'', CHR ''a'', CHR ''l'', CHR 0xC5, CHR 0xBF, CHR ''e'']"

definition sample_upper :: "string \<Rightarrow> string" where
  "sample_upper s = (if s = long_s_false then ''FALSE'' else ascii_upper s)"

definition sample_float_of_int :: "int \<Rightarrow> real option" where
  "sample_float_of_int n = (if \<bar>n\<bar> < 2 ^ 1024 then Some (of_int n) else None)"

definition name_start :: "char \<Rightarrow> bool" where
  "name_start c \<longleftrightarrow>
     (let n = (of_char c :: nat) in
      (65 \<le> n \<and> n \<le> 90) \<or> (97 \<le> n \<and> n \<le> 122) \<or> n = 95 \<or> n = 58)"

definition name_char :: "char \<Rightarrow> bool" where
  "name_char c \<longleftrightarrow> (name_start c \<or> (let n = (of_char c :: nat) in 48 \<le> n \<and> n \<le> 57))"

fun name_syntax :: "string \<Rightarrow> bool" where
  "name_syntax [] = False"
| "name_syntax (c # cs) = (name_start c \<and> list_all name_char cs)"

definition sample_gauge_new :: "string \<Rightarrow> bool" where
  "sample_gauge_new name \<longleftrightarrow>
     name_syntax name
     \<and> name \<notin> set [''mqtt_message'', ''mqtt_message_total'', ''mqtt_message_created'']"

definition sample_loads :: "payload \<Rightarrow> error + real pyval" where
  "sample_loads p =
     (if p = PBytes ''42'' then Inr (VInt 42)
      else if p = PBytes ''{}'' then Inr (VDict [])
      else if p = PBytes ''{\"state\": \"x\"}'' then Inr (VDict [(''state'', VStr ''x'')])
      else if p = PBytes ''{\"a\": {\"b\": 5}, \"s\": \"x\", \"on\": \"ON\"}''
        then Inr (VDict [(''a'', VDict [(''b'', VInt 5)]), (''s'', VStr ''x''),
                         (''on'', VStr ''ON'')])
      else if p = PStr ''{\"temperature\": \"20.5\"}''
        then Inr (VDict [(''temperature'', VStr ''20.5'')])
      else if p = PBytes ''{\"message_total\": 1}'' then Inr (VDict [(''message_total'', VInt 1)])
      else Inl JSONDecodeError)"

definition sample_dumps :: "real pyval \<Rightarrow> string" where
  "sample_dumps v =
     (if v = VDict [(''temperature'', VStr ''20.5'')] then ''{\"temperature\": \"20.5\"}''
      else if v = VDict [(''devices_sensor1'', VInt 42)] then ''{\"devices_sensor1\": 42}''
      else ''null'')"

definition sample_float :: "string \<Rightarrow> real option" where
  "sample_float s = (if s = ''20.5'' then Some 20.5 else None)"

definition sample_lib :: "real pylib" where
  "sample_lib =
     \<lparr> bytes_decode = sample_decode, str_upper = sample_upper, json_loads = sample_loads,
       json_dumps = sample_dumps, float_of_str = sample_float,
       float_of_int = sample_float_of_int, gauge_new = sample_gauge_new \<rparr>"

text \<open>A message used in the examples: a nested mapping, a field that is not numeric, a state word.\<close>

definition lamp_payload :: bytes where
  "lamp_payload = ''{\"a\": {\"b\": 5}, \"s\": \"x\", \"on\": \"ON\"}''"

definition lamp_data :: "(string \<times> real pyval) list" where
  "lamp_data = [(''a'', VDict [(''b'', VInt 5)]), (''s'', VStr ''x''), (''on'', VStr ''ON'')]"


text \<open>\<^verbatim>\<open>isinstance(value, dict)\<close>.\<close>

fun is_dict :: "'f pyval \<Rightarrow> bool" where
  "is_dict (VDict d) = True"
| "is_dict v = False"

subsection \<open>The writes of one extraction\<close>

text \<open>
  The writes of the extractor on a payload, in order: for every field that is not a
  mapping and that the coercer accepts, the name of its gauge and the coerced value;
  the fields of a nested mapping come where the mapping stands. \<open>apply_writes\<close> does
  the writes one after the other, each as lines 72 to 79 do it. That the extractor is
  \<open>apply_writes\<close> of \<open>leaf_writes\<close> is the lemma \<open>parse_metrics_writes\<close> below.
\<close>

function leaf_writes ::
  "'f pylib \<Rightarrow> config \<Rightarrow> (string \<times> 'f pyval) list \<Rightarrow> string \<Rightarrow> (string \<times> 'f pyval) list" where
  "leaf_writes L C [] prefix = []"
| "leaf_writes L C ((metric, v) # rest) prefix =
     (case v of
        VDict d \<Rightarrow> leaf_writes L C d (prefix @ metric @ ''_'') @ leaf_writes L C rest prefix
      | _ \<Rightarrow>
          (case parse_metric L v of
             Inl err \<Rightarrow> leaf_writes L C rest prefix
           | Inr metric_value \<Rightarrow>
               (metric_name C prefix metric, metric_value) # leaf_writes L C rest prefix))"
  by pat_completeness auto
termination
  by (relation "measure (\<lambda>(L, C, data, prefix). size_list (size_prod (\<lambda>_. 0) size) data)") auto

definition write_metric ::
  "'f pylib \<Rightarrow> string \<Rightarrow> string \<Rightarrow> 'f pyval \<Rightarrow> 'f exporter \<Rightarrow> 'f result" where
  "write_metric L name topic v st =
     (case create_metric L name st of
        Inl raised \<Rightarrow> Inl raised
      | Inr st1 \<Rightarrow> gauge_set L name topic v st1)"

fun apply_writes ::
  "'f pylib \<Rightarrow> string \<Rightarrow> (string \<times> 'f pyval) list \<Rightarrow> 'f exporter \<Rightarrow> 'f result" where
  "apply_writes L topic [] st = Inr st"
| "apply_writes L topic ((name, v) # ws) st =
     (case write_metric L name topic v st of
        Inl raised \<Rightarrow> Inl raised
      | Inr st1 \<Rightarrow> apply_writes L topic ws st1)"

text \<open>The gauge under a name, empty when the name is absent; and the state when a write succeeds.\<close>

definition gauge_of :: "'f exporter \<Rightarrow> string \<Rightarrow> 'f gauge" where
  "gauge_of st name = (case prom_metrics st name of None \<Rightarrow> Map.empty | Some g \<Rightarrow> g)"

definition put :: "string \<Rightarrow> string \<Rightarrow> 'f \<Rightarrow> 'f exporter \<Rightarrow> 'f exporter" where
  "put name topic f st =
     st\<lparr>prom_metrics := (prom_metrics st)(name \<mapsto> (gauge_of st name)(topic \<mapsto> VFloat f))\<rparr>"

text \<open>The exporter of a result, returned or at the raise.\<close>

fun state_of :: "'f result \<Rightarrow> 'f exporter" where
  "state_of (Inr st) = st"
| "state_of (Inl (e, st)) = st"

section \<open>Properties\<close>

subsection \<open>The scalar coercer\<close>

lemma folds_to_letters:
  "folds_to CHR ''o''" "folds_to CHR ''n''" "folds_to CHR ''f''" "folds_to CHR ''t''"
  "folds_to CHR ''r''" "folds_to CHR ''u''" "folds_to CHR ''e''" "folds_to CHR ''a''"
  "folds_to CHR ''l''" "folds_to CHR ''s''"
  unfolding folds_to_def
  by (auto simp: ascii_upper_char_def split: option.splits if_splits)

lemma case_variant_upper:
  "(\<And>l. l \<in> set w \<Longrightarrow> folds_to l) \<Longrightarrow> case_variant w s \<longleftrightarrow> ascii_upper s = ascii_upper w"
proof (induction w arbitrary: s)
  case Nil
  then show ?case by (cases s) (simp_all add: ascii_upper_def)
next
  case (Cons l w)
  show ?case
  proof (cases s)
    case Nil
    then show ?thesis by (simp add: ascii_upper_def)
  next
    case (Cons c s')
    have "folds_to l" using Cons.prems by simp
    then have "(ascii_upper_char c = ascii_upper_char l) = (c = l \<or> c = ascii_upper_char l)"
      by (simp add: folds_to_def)
    moreover have "case_variant w s' \<longleftrightarrow> ascii_upper s' = ascii_upper w"
      using Cons.IH Cons.prems by simp
    ultimately show ?thesis using Cons by (simp add: ascii_upper_def)
  qed
qed

lemma upper_words:
  "ascii_upper ''on'' = ''ON''" "ascii_upper ''off'' = ''OFF''"
  "ascii_upper ''true'' = ''TRUE''" "ascii_upper ''false'' = ''FALSE''"
  by (simp_all add: ascii_upper_def ascii_upper_char_def)

lemma variant_on: "case_variant ''on'' s \<longleftrightarrow> ascii_upper s = ''ON''"
proof -
  have "\<And>l. l \<in> set ''on'' \<Longrightarrow> folds_to l"
    using folds_to_letters by auto
  from case_variant_upper [OF this] show ?thesis
    by (simp only: upper_words)
qed

lemma variant_off: "case_variant ''off'' s \<longleftrightarrow> ascii_upper s = ''OFF''"
proof -
  have "\<And>l. l \<in> set ''off'' \<Longrightarrow> folds_to l"
    using folds_to_letters by auto
  from case_variant_upper [OF this] show ?thesis
    by (simp only: upper_words)
qed

lemma variant_true: "case_variant ''true'' s \<longleftrightarrow> ascii_upper s = ''TRUE''"
proof -
  have "\<And>l. l \<in> set ''true'' \<Longrightarrow> folds_to l"
    using folds_to_letters by auto
  from case_variant_upper [OF this] show ?thesis
    by (simp only: upper_words)
qed

lemma variant_false: "case_variant ''false'' s \<longleftrightarrow> ascii_upper s = ''FALSE''"
proof -
  have "\<And>l. l \<in> set ''false'' \<Longrightarrow> folds_to l"
    using folds_to_letters by auto
  from case_variant_upper [OF this] show ?thesis
    by (simp only: upper_words)
qed

text \<open>A case variant of an ASCII word is ASCII.\<close>

lemma ascii_upper_char_ascii:
  "(of_char c :: nat) < 128 \<Longrightarrow> (of_char (ascii_upper_char c) :: nat) < 128"
  by (auto simp: ascii_upper_char_def split: option.splits if_splits)

lemma case_variant_ascii: "case_variant w s \<Longrightarrow> ascii_bytes w \<Longrightarrow> ascii_bytes s"
  by (induction w s rule: case_variant.induct) (auto simp: ascii_upper_char_ascii)

lemma ascii_words:
  "ascii_bytes ''on''" "ascii_bytes ''off''" "ascii_bytes ''true''" "ascii_bytes ''false''"
  by simp_all

text \<open>
  With a library whose \<^verbatim>\<open>str.upper\<close> is letter-by-letter on ASCII text, the case variants
  of a state word are upper-cased to it.
\<close>

lemma variant_upper:
  assumes up: "\<And>s. ascii_bytes s \<Longrightarrow> str_upper L s = ascii_upper s"
  shows "case_variant ''on'' s \<Longrightarrow> str_upper L s = ''ON''"
    and "case_variant ''off'' s \<Longrightarrow> str_upper L s = ''OFF''"
    and "case_variant ''true'' s \<Longrightarrow> str_upper L s = ''TRUE''"
    and "case_variant ''false'' s \<Longrightarrow> str_upper L s = ''FALSE''"
proof -
  show "case_variant ''on'' s \<Longrightarrow> str_upper L s = ''ON''"
    using up [OF case_variant_ascii [OF _ ascii_words(1)]] by (simp only: variant_on)
  show "case_variant ''off'' s \<Longrightarrow> str_upper L s = ''OFF''"
    using up [OF case_variant_ascii [OF _ ascii_words(2)]] by (simp only: variant_off)
  show "case_variant ''true'' s \<Longrightarrow> str_upper L s = ''TRUE''"
    using up [OF case_variant_ascii [OF _ ascii_words(3)]] by (simp only: variant_true)
  show "case_variant ''false'' s \<Longrightarrow> str_upper L s = ''FALSE''"
    using up [OF case_variant_ascii [OF _ ascii_words(4)]] by (simp only: variant_false)
qed

lemma state_values_words:
  "map_of STATE_VALUES w = Some n \<Longrightarrow> w \<in> set state_words"
  by (auto simp: STATE_VALUES_def state_words_def split: if_splits)

lemma state_values_lookup:
  "map_of STATE_VALUES ''ON'' = Some 1" "map_of STATE_VALUES ''OFF'' = Some 0"
  "map_of STATE_VALUES ''TRUE'' = Some 1" "map_of STATE_VALUES ''FALSE'' = Some 0"
  by (simp_all add: STATE_VALUES_def)

lemma parse_str_coerce_text:
  assumes up: "\<And>s. ascii_bytes s \<Longrightarrow> str_upper L s = ascii_upper s"
    and nf: "\<And>w. w \<in> set state_words \<Longrightarrow> float_of_str L w = None"
    and c: "coerce_text L s = Some r"
  shows "parse_str L s = Inr r"
proof -
  consider (on) "case_variant ''on'' s"
    | (off) "\<not> case_variant ''on'' s" "case_variant ''off'' s"
    | (true) "\<not> case_variant ''on'' s" "\<not> case_variant ''off'' s" "case_variant ''true'' s"
    | (false) "\<not> case_variant ''on'' s" "\<not> case_variant ''off'' s" "\<not> case_variant ''true'' s"
        "case_variant ''false'' s"
    | (other) "\<not> case_variant ''on'' s" "\<not> case_variant ''off'' s" "\<not> case_variant ''true'' s"
        "\<not> case_variant ''false'' s"
    by blast
  then show ?thesis
  proof cases
    case on
    with c have "r = VInt 1" by (simp add: coerce_text_def)
    then show ?thesis
      using variant_upper(1) [of L, OF up on]
      by (simp add: parse_str_def state_values_lookup)
  next
    case off
    with c have "r = VInt 0" by (simp add: coerce_text_def)
    then show ?thesis
      using variant_upper(2) [of L, OF up off(2)]
      by (simp add: parse_str_def state_values_lookup)
  next
    case true
    with c have "r = VInt 1" by (simp add: coerce_text_def)
    then show ?thesis
      using variant_upper(3) [of L, OF up true(3)]
      by (simp add: parse_str_def state_values_lookup)
  next
    case false
    with c have "r = VInt 0" by (simp add: coerce_text_def)
    then show ?thesis
      using variant_upper(4) [of L, OF up false(4)]
      by (simp add: parse_str_def state_values_lookup)
  next
    case other
    with c obtain f where f: "float_of_str L (str_upper L s) = Some f" and r: "r = VFloat f"
      by (auto simp: coerce_text_def)
    have "map_of STATE_VALUES (str_upper L s) = None"
    proof (cases "map_of STATE_VALUES (str_upper L s)")
      case None
      then show ?thesis .
    next
      case (Some n)
      from nf [OF state_values_words [OF Some]] f show ?thesis by simp
    qed
    with f r show ?thesis by (simp add: parse_str_def)
  qed
qed

text \<open>
  Claim C7. The coercer agrees with the reference definition wherever that definition
  gives a value: a number (integer, float or \<^verbatim>\<open>bool\<close>) is returned unchanged, every
  case variant of on, off, true, false gives 1, 0, 1, 0, and any other text gives the
  float that \<^verbatim>\<open>float\<close> parses from it (the code parses the upper-cased text). The
  coercer neither takes nor returns the exporter's state: it has no side effect. Two
  facts of the library are used: \<^verbatim>\<open>str.upper\<close> maps ASCII text letter by letter, and
  \<^verbatim>\<open>float\<close> raises on the four state words.
\<close>

theorem parse_metric_refines_coerce_ref:
  assumes "\<And>s. ascii_bytes s \<Longrightarrow> str_upper L s = ascii_upper s"
    and "\<And>w. w \<in> set state_words \<Longrightarrow> float_of_str L w = None"
    and "coerce_ref L v = Some r"
  shows "parse_metric L v = Inr r"
proof (cases v)
  case (VStr s)
  with assms(3) have "coerce_text L s = Some r" by simp
  from parse_str_coerce_text [of L, OF assms(1) assms(2) this] VStr show ?thesis by simp
next
  case (VBytes b)
  with assms(3) obtain s where s: "bytes_decode L b = Some s" and "coerce_text L s = Some r"
    by (auto split: option.splits)
  from parse_str_coerce_text [of L, OF assms(1) assms(2) this(2)] s VBytes show ?thesis by simp
qed (use assms(3) in auto)

lemma sample_upper_ascii: "ascii_bytes s \<Longrightarrow> str_upper sample_lib s = ascii_upper s"
  by (auto simp: sample_lib_def sample_upper_def long_s_false_def)

lemma sample_float_words: "w \<in> set state_words \<Longrightarrow> float_of_str sample_lib w = None"
  by (auto simp: sample_lib_def sample_float_def state_words_def)

theorem parse_metric_refines_coerce_ref_witness:
  "coerce_ref sample_lib (VStr ''oN'') = Some (VInt 1)
   \<and> parse_metric sample_lib (VStr ''oN'') = Inr (VInt 1)
   \<and> coerce_ref sample_lib (VStr ''20.5'') = Some (VFloat 20.5)
   \<and> parse_metric sample_lib (VStr ''20.5'') = Inr (VFloat 20.5)"
proof -
  have a: "coerce_ref sample_lib (VStr ''oN'') = Some (VInt 1)"
    by (simp add: coerce_text_def ascii_upper_char_def)
  have b: "coerce_ref sample_lib (VStr ''20.5'') = Some (VFloat 20.5)"
    by (simp add: coerce_text_def ascii_upper_def ascii_upper_char_def sample_lib_def
          sample_float_def sample_upper_def long_s_false_def)
  show ?thesis
    using a b
      parse_metric_refines_coerce_ref [of sample_lib, OF sample_upper_ascii sample_float_words a]
      parse_metric_refines_coerce_ref [of sample_lib, OF sample_upper_ascii sample_float_words b]
    by simp
qed

lemma parse_str_error:
  "parse_str L s = Inl e \<longleftrightarrow> e = ValueError \<and> \<not> state_word L s \<and> \<not> float_text L s"
proof (cases "map_of STATE_VALUES (str_upper L s)")
  case None
  then have "str_upper L s \<notin> set state_words"
    by (auto simp: STATE_VALUES_def state_words_def split: if_splits)
  with None show ?thesis
    by (auto simp: parse_str_def state_word_def float_text_def Let_def split: option.splits)
next
  case (Some n)
  from state_values_words [OF Some] Some show ?thesis
    by (simp add: parse_str_def state_word_def Let_def)
qed




text \<open>
  For ASCII text the state words are the case variants of on, off, true and false, and
  no other text. Unicode upper-casing adds texts that are not ASCII: the word false
  written with a long s is upper-cased to \<^verbatim>\<open>FALSE\<close>, and the coercer returns 0 for it.
\<close>

lemma state_word_ascii:
  assumes "\<And>s. ascii_bytes s \<Longrightarrow> str_upper L s = ascii_upper s" and "ascii_bytes s"
  shows "state_word L s \<longleftrightarrow>
           case_variant ''on'' s \<or> case_variant ''off'' s \<or> case_variant ''true'' s
           \<or> case_variant ''false'' s"
  by (simp add: state_word_def state_words_def assms variant_on variant_off variant_true
        variant_false)

lemma long_s_state_word:
  "parse_metric sample_lib (VStr long_s_false) = Inr (VInt 0)
   \<and> \<not> case_variant ''false'' long_s_false
   \<and> state_word sample_lib long_s_false"
  by (simp add: parse_str_def sample_lib_def sample_upper_def STATE_VALUES_def state_word_def
        state_words_def long_s_false_def ascii_upper_char_def)

lemma parse_metric_error: "parse_metric L v = Inl e \<Longrightarrow> is_ValueError e"
  by (cases v) (auto simp: parse_str_error split: option.splits)

subsection \<open>The extractor as a sequence of writes\<close>

lemma apply_writes_append:
  "apply_writes L topic (ws @ ws') st =
     (case apply_writes L topic ws st of
        Inl raised \<Rightarrow> Inl raised
      | Inr st1 \<Rightarrow> apply_writes L topic ws' st1)"
  by (induction ws arbitrary: st) (auto split: sum.splits)

lemma parse_metrics_writes:
  "parse_metrics L C data topic prefix st
     = apply_writes L topic (leaf_writes L C data prefix) st"
proof (induction L C data topic prefix st rule: parse_metrics.induct)
  case (1 L C topic prefix st)
  show ?case by simp
next
  case (2 L C metric v rest topic prefix st)
  show ?case
  proof (cases v)
    case (VDict d)
    then show ?thesis using 2 by (simp add: apply_writes_append split: sum.splits)
  qed (use 2 in \<open>auto simp del: parse_metric.simps simp: write_metric_def
         split: sum.splits dest: parse_metric_error\<close>)
qed

text \<open>One write: when it returns, and what it returns.\<close>

lemma write_metric_returns:
  "write_metric L name topic v st = Inr st1 \<longleftrightarrow>
     (prom_metrics st name \<noteq> None \<or> gauge_new L name)
     \<and> (\<exists>f. to_float L v = Inr f \<and> st1 = put name topic f st)"
  by (auto simp: write_metric_def create_metric_def gauge_set_def put_def gauge_of_def
      split: option.splits sum.splits if_splits)

lemma write_metric_raises_counter:
  "write_metric L name topic v st = Inl (e, st1) \<Longrightarrow> prom_msg_counter st1 = prom_msg_counter st"
  by (auto simp: write_metric_def create_metric_def gauge_set_def
      split: option.splits sum.splits if_splits)

lemma put_counter: "prom_msg_counter (put name topic f st) = prom_msg_counter st"
  by (simp add: put_def)

lemma put_metrics:
  "prom_metrics (put name topic f st) n =
     (if n = name then Some ((gauge_of st name)(topic \<mapsto> VFloat f)) else prom_metrics st n)"
  by (simp add: put_def)

lemma put_dom: "dom (prom_metrics (put name topic f st)) = insert name (dom (prom_metrics st))"
  by (auto simp: put_def)

lemma apply_writes_counter:
  "prom_msg_counter (state_of (apply_writes L topic ws st)) = prom_msg_counter st"
proof (induction ws arbitrary: st)
  case Nil
  then show ?case by simp
next
  case (Cons w ws)
  obtain name v where w: "w = (name, v)" by (cases w)
  show ?case
  proof (cases "write_metric L name topic v st")
    case (Inl raised)
    obtain e st1 where "raised = (e, st1)" by (cases raised)
    with Inl write_metric_raises_counter [of L name topic v st e st1] w show ?thesis by simp
  next
    case (Inr st1)
    then have "prom_msg_counter st1 = prom_msg_counter st"
      by (auto simp: write_metric_returns put_counter)
    with Inr Cons.IH [of st1] w show ?thesis by simp
  qed
qed

text \<open>The writes all return exactly when the library accepts each of them.\<close>

lemma apply_writes_returns:
  "(\<exists>st1. apply_writes L topic ws st = Inr st1) \<longleftrightarrow>
     (\<forall>(n, v) \<in> set ws. (prom_metrics st n \<noteq> None \<or> gauge_new L n) \<and> (\<exists>f. to_float L v = Inr f))"
proof (induction ws arbitrary: st)
  case Nil
  then show ?case by simp
next
  case (Cons w ws)
  obtain name v where w: "w = (name, v)" by (cases w)
  show ?case
  proof (cases "write_metric L name topic v st")
    case (Inl raised)
    then have "\<not> ((prom_metrics st name \<noteq> None \<or> gauge_new L name) \<and> (\<exists>f. to_float L v = Inr f))"
      using write_metric_returns [of L name topic v st] by auto
    with Inl w show ?thesis by auto
  next
    case (Inr st1)
    then obtain f where ok: "prom_metrics st name \<noteq> None \<or> gauge_new L name"
      and f: "to_float L v = Inr f" and st1: "st1 = put name topic f st"
      by (auto simp: write_metric_returns)
    have "(prom_metrics st1 n \<noteq> None \<or> gauge_new L n) \<longleftrightarrow> (prom_metrics st n \<noteq> None \<or> gauge_new L n)"
      for n
      using ok by (auto simp: st1 put_metrics)
    with Cons.IH [of st1] Inr w ok f show ?thesis by auto
  qed
qed

text \<open>
  The registry after the writes: a name that is not written keeps its entry; a name
  that is written holds its earlier gauge (the empty one if it is new) with the float
  of the last value written to it under the topic.
\<close>

lemma apply_writes_unwritten:
  "apply_writes L topic ws st = Inr st1 \<Longrightarrow> map_of (rev ws) n = None \<Longrightarrow>
     prom_metrics st1 n = prom_metrics st n"
proof (induction ws arbitrary: st)
  case Nil
  then show ?case by simp
next
  case (Cons w ws)
  obtain name v where w: "w = (name, v)" by (cases w)
  from Cons.prems(1) w obtain st' where s: "write_metric L name topic v st = Inr st'"
    and r: "apply_writes L topic ws st' = Inr st1"
    by (auto split: sum.splits)
  from Cons.prems(2) w have n: "map_of (rev ws) n = None" and ne: "n \<noteq> name"
    by (auto simp: map_add_def split: option.splits if_splits)
  from s ne have "prom_metrics st' n = prom_metrics st n"
    by (auto simp: write_metric_returns put_metrics)
  with Cons.IH [OF r n] show ?case by simp
qed

lemma apply_writes_written:
  "apply_writes L topic ws st = Inr st1 \<Longrightarrow> map_of (rev ws) n = Some v \<Longrightarrow>
     \<exists>f. to_float L v = Inr f
        \<and> prom_metrics st1 n = Some ((gauge_of st n)(topic \<mapsto> VFloat f))"
proof (induction ws arbitrary: st)
  case Nil
  then show ?case by simp
next
  case (Cons w ws)
  obtain name v0 where w: "w = (name, v0)" by (cases w)
  from Cons.prems(1) w obtain st' where s: "write_metric L name topic v0 st = Inr st'"
    and r: "apply_writes L topic ws st' = Inr st1"
    by (auto split: sum.splits)
  from s obtain f0 where f0: "to_float L v0 = Inr f0" and st': "st' = put name topic f0 st"
    by (auto simp: write_metric_returns)
  show ?case
  proof (cases "map_of (rev ws) n")
    case None
    with Cons.prems(2) w have n: "n = name" and v: "v = v0"
      by (auto simp: map_add_def split: if_splits)
    from apply_writes_unwritten [OF r None] have "prom_metrics st1 n = prom_metrics st' n" .
    with n st' have "prom_metrics st1 n = Some ((gauge_of st n)(topic \<mapsto> VFloat f0))"
      by (simp only: put_metrics refl if_True)
    with f0 v show ?thesis by blast
  next
    case (Some v1)
    with Cons.prems(2) w have v: "v1 = v" by (simp add: map_add_def)
    from Some v have "map_of (rev ws) n = Some v" by simp
    from Cons.IH [OF r this] obtain f where f: "to_float L v = Inr f"
      and m: "prom_metrics st1 n = Some ((gauge_of st' n)(topic \<mapsto> VFloat f))"
      by blast
    have "(gauge_of st' n)(topic \<mapsto> VFloat f) = (gauge_of st n)(topic \<mapsto> VFloat f)"
      by (simp add: st' gauge_of_def put_metrics)
    with m have "prom_metrics st1 n = Some ((gauge_of st n)(topic \<mapsto> VFloat f))"
      by (simp only:)
    with f show ?thesis by blast
  qed
qed

lemma map_of_rev_written:
  "(n, v) \<in> set ws \<Longrightarrow> \<exists>v'. map_of (rev ws) n = Some v'"
  by (metis fst_conv image_eqI map_of_eq_None_iff not_Some_eq set_rev)

lemma map_of_rev_distinct:
  "distinct (map fst ws) \<Longrightarrow> (n, v) \<in> set ws \<Longrightarrow> map_of (rev ws) n = Some v"
  by (simp add: rev_map [symmetric])

lemma apply_writes_dom:
  assumes "apply_writes L topic ws st = Inr st1"
  shows "dom (prom_metrics st1) = dom (prom_metrics st) \<union> fst ` set ws"
proof (rule set_eqI)
  fix n
  show "n \<in> dom (prom_metrics st1) \<longleftrightarrow> n \<in> dom (prom_metrics st) \<union> fst ` set ws"
  proof (cases "map_of (rev ws) n")
    case None
    then have "n \<notin> fst ` set ws"
      by (simp add: map_of_eq_None_iff)
    with apply_writes_unwritten [OF assms None] show ?thesis by (auto simp: dom_def)
  next
    case (Some v)
    then have "n \<in> fst ` set ws"
      by (metis map_of_eq_None_iff option.distinct(1) set_rev)
    with apply_writes_written [OF assms Some] show ?thesis by (auto simp: dom_def)
  qed
qed


lemma apply_writes_value:
  assumes "apply_writes L topic ws st = Inr st1" and "map_of (rev ws) n = Some v"
  shows "\<exists>f. to_float L v = Inr f \<and> gauge_value st1 n topic = Some (VFloat f)"
  using apply_writes_written [OF assms] by (auto simp: gauge_value_def)


subsection \<open>Skipping a field that is not numeric\<close>

lemma leaf_writes_append:
  "leaf_writes L C (xs @ ys) prefix = leaf_writes L C xs prefix @ leaf_writes L C ys prefix"
proof (induction xs)
  case Nil
  show ?case by simp
next
  case (Cons x xs)
  obtain k v where x: "x = (k, v)" by (cases x)
  show ?case
    unfolding x using Cons.IH
    by (cases v) (simp_all del: parse_metric.simps split: sum.splits)
qed

lemma leaf_writes_skip:
  assumes "parse_metric L v = Inl err" and "\<not> is_dict v"
  shows "leaf_writes L C ((field, v) # rest) prefix = leaf_writes L C rest prefix"
  using assms by (cases v) (simp_all del: parse_metric.simps)

lemma leaf_writes_field:
  assumes "\<not> is_dict v" and "parse_metric L v = Inr r"
  shows "leaf_writes L C ((field, v) # rest) prefix
           = (metric_name C prefix field, r) # leaf_writes L C rest prefix"
  using assms by (cases v) (simp_all del: parse_metric.simps)

lemma leaf_writes_member:
  assumes "(field, v) \<in> set data" and "\<not> is_dict v" and "parse_metric L v = Inr r"
  shows "(metric_name C prefix field, r) \<in> set (leaf_writes L C data prefix)"
proof -
  from assms(1) obtain xs ys where "data = xs @ (field, v) # ys"
    by (auto simp: in_set_conv_decomp)
  then show ?thesis
    by (simp add: leaf_writes_append leaf_writes_field [OF assms(2) assms(3)]
          del: leaf_writes.simps)
qed

text \<open>
  Claim C9. Let a field of a payload hold a value that is not a mapping and that the
  coercer refuses. Then extraction of the payload, wherever the field stands among its
  siblings, is extraction of the payload without the field: same result, same state. It
  returns exactly when the metrics library accepts every write of the other fields (the
  name of each gauge is present already or accepted by the constructor, and the value
  converts to a float). When it returns, every sibling that is not a mapping and that
  the coercer accepts has its gauge in the registry, holding a value under the topic;
  that value is the float of the sibling's coerced value when no two fields of the
  payload resolve to the same name.
\<close>

theorem failed_field_is_skipped:
  assumes "parse_metric L v = Inl err" and "\<not> is_dict v"
  shows "parse_metrics L C (before @ (field, v) # after) topic prefix st
           = parse_metrics L C (before @ after) topic prefix st
       \<and> ((\<exists>st1. parse_metrics L C (before @ (field, v) # after) topic prefix st = Inr st1) \<longleftrightarrow>
            (\<forall>(n, r) \<in> set (leaf_writes L C (before @ after) prefix).
               (prom_metrics st n \<noteq> None \<or> gauge_new L n) \<and> (\<exists>f. to_float L r = Inr f)))
       \<and> (\<forall>k' v' r' st1.
             (k', v') \<in> set (before @ after) \<and> \<not> is_dict v' \<and> parse_metric L v' = Inr r'
             \<and> parse_metrics L C (before @ (field, v) # after) topic prefix st = Inr st1 \<longrightarrow>
               metric_name C prefix k' \<in> dom (prom_metrics st1)
             \<and> (\<exists>f. gauge_value st1 (metric_name C prefix k') topic = Some (VFloat f))
             \<and> (distinct (map fst (leaf_writes L C (before @ after) prefix)) \<longrightarrow>
                  (\<exists>f. to_float L r' = Inr f
                     \<and> gauge_value st1 (metric_name C prefix k') topic = Some (VFloat f))))"
proof (intro conjI allI impI)
  let ?ws = "leaf_writes L C (before @ after) prefix"
  have w: "leaf_writes L C (before @ (field, v) # after) prefix = ?ws"
    by (simp add: leaf_writes_append leaf_writes_skip [OF assms] del: leaf_writes.simps)
  show e: "parse_metrics L C (before @ (field, v) # after) topic prefix st
           = parse_metrics L C (before @ after) topic prefix st"
    by (simp only: parse_metrics_writes w)
  show "(\<exists>st1. parse_metrics L C (before @ (field, v) # after) topic prefix st = Inr st1) \<longleftrightarrow>
            (\<forall>(n, r) \<in> set ?ws.
               (prom_metrics st n \<noteq> None \<or> gauge_new L n) \<and> (\<exists>f. to_float L r = Inr f))"
    by (simp only: parse_metrics_writes w apply_writes_returns)
  fix k' v' r' st1
  assume h: "(k', v') \<in> set (before @ after) \<and> \<not> is_dict v' \<and> parse_metric L v' = Inr r'
             \<and> parse_metrics L C (before @ (field, v) # after) topic prefix st = Inr st1"
  let ?n = "metric_name C prefix k'"
  from h have a: "apply_writes L topic ?ws st = Inr st1"
    by (simp only: parse_metrics_writes w)
  from h have m: "(?n, r') \<in> set ?ws"
    using leaf_writes_member [of k' v' "before @ after" L r' C prefix] by blast
  from apply_writes_dom [OF a] m show "?n \<in> dom (prom_metrics st1)" by force
  from map_of_rev_written [OF m] obtain r where r: "map_of (rev ?ws) ?n = Some r" by blast
  from apply_writes_value [OF a r] show "\<exists>f. gauge_value st1 ?n topic = Some (VFloat f)"
    by blast
  assume "distinct (map fst ?ws)"
  from map_of_rev_distinct [OF this m] have "map_of (rev ?ws) ?n = Some r'" .
  from apply_writes_value [OF a this]
  show "\<exists>f. to_float L r' = Inr f \<and> gauge_value st1 ?n topic = Some (VFloat f)" .
qed

lemma sample_parse_str:
  "parse_str sample_lib ''x'' = Inl ValueError"
  "parse_str sample_lib ''ON'' = Inr (VInt 1)"
  "parse_str sample_lib ''20.5'' = Inr (VFloat 20.5)"
  by (simp_all add: parse_str_def STATE_VALUES_def ascii_upper_def ascii_upper_char_def
        sample_lib_def sample_upper_def long_s_false_def sample_float_def)

lemma sample_fail: "parse_metric sample_lib (VStr ''x'') = Inl ValueError"
  by (simp add: sample_parse_str)

lemma default_ignored: "IGNORED_TOPICS default_config = [[]]"
  by (simp add: default_config_def load_config_def getenv_def)

lemma default_prefix: "PREFIX default_config = ''mqtt_''"
  by (simp add: default_config_def load_config_def getenv_def)

lemma sample_names:
  "metric_name default_config [] ''on'' = ''mqtt_on''"
  "metric_name default_config ''a_'' ''b'' = ''mqtt_a_b''"
  "metric_name default_config [] ''s'' = ''mqtt_s''"
  "metric_name default_config [] ''a_b'' = ''mqtt_a_b''"
  "metric_name default_config [] ''temperature'' = ''mqtt_temperature''"
  "metric_name default_config [] ''message_total'' = ''mqtt_message_total''"
  by (simp_all add: metric_name_def default_prefix remove_char_def replace_char_def)

lemma sample_accepts:
  "gauge_new sample_lib ''mqtt_on''" "gauge_new sample_lib ''mqtt_a_b''"
  "gauge_new sample_lib ''mqtt_temperature''" "\<not> gauge_new sample_lib ''mqtt_message_total''"
  by (simp_all add: sample_lib_def sample_gauge_new_def name_start_def name_char_def)

lemma sample_floats:
  "float_of_int sample_lib 1 = Some 1" "float_of_int sample_lib 5 = Some 5"
  by (simp_all add: sample_lib_def sample_float_of_int_def)

lemma sample_extraction:
  "parse_metrics sample_lib default_config
       ([(''a'', VDict [(''b'', VInt 5)])] @ (''s'', VStr ''x'') # [(''on'', VStr ''ON'')])
       ''home_lamp'' [] init_exporter
     = Inr \<lparr> prom_metrics = [''mqtt_a_b'' \<mapsto> [''home_lamp'' \<mapsto> VFloat 5],
                               ''mqtt_on'' \<mapsto> [''home_lamp'' \<mapsto> VFloat 1]],
             prom_msg_counter = Map.empty \<rparr>"
  by (simp add: sample_names sample_parse_str sample_accepts sample_floats
        gauge_set_def create_metric_def init_exporter_def)

theorem failed_field_is_skipped_witness:
  "parse_metric sample_lib (VStr ''x'') = Inl ValueError
   \<and> \<not> is_dict (VStr ''x'' :: real pyval)
   \<and> parse_metrics sample_lib default_config
         ([(''a'', VDict [(''b'', VInt 5)])] @ (''s'', VStr ''x'') # [(''on'', VStr ''ON'')])
         ''home_lamp'' [] (init_exporter :: real exporter)
       = Inr \<lparr> prom_metrics = [''mqtt_a_b'' \<mapsto> [''home_lamp'' \<mapsto> VFloat 5],
                                 ''mqtt_on'' \<mapsto> [''home_lamp'' \<mapsto> VFloat 1]],
               prom_msg_counter = Map.empty \<rparr>
   \<and> parse_metrics sample_lib default_config
         ([(''a'', VDict [(''b'', VInt 5)])] @ [(''on'', VStr ''ON'')])
         ''home_lamp'' [] (init_exporter :: real exporter)
       = Inr \<lparr> prom_metrics = [''mqtt_a_b'' \<mapsto> [''home_lamp'' \<mapsto> VFloat 5],
                                 ''mqtt_on'' \<mapsto> [''home_lamp'' \<mapsto> VFloat 1]],
               prom_msg_counter = Map.empty \<rparr>
   \<and> gauge_value \<lparr> prom_metrics = [''mqtt_a_b'' \<mapsto> [''home_lamp'' \<mapsto> VFloat (5 :: real)],
                                     ''mqtt_on'' \<mapsto> [''home_lamp'' \<mapsto> VFloat 1]],
                   prom_msg_counter = Map.empty \<rparr> ''mqtt_on'' ''home_lamp'' = Some (VFloat 1)"
proof -
  have d: "\<not> is_dict (VStr ''x'' :: real pyval)" by simp
  note r = failed_field_is_skipped [OF sample_fail d, of default_config
      "[(''a'', VDict [(''b'', VInt 5)])]" "''s''" "[(''on'', VStr ''ON'')]" "''home_lamp''"
      "[]" "init_exporter :: real exporter"]
  have e: "parse_metrics sample_lib default_config
         ([(''a'', VDict [(''b'', VInt 5)])] @ [(''on'', VStr ''ON'')])
         ''home_lamp'' [] (init_exporter :: real exporter)
       = Inr \<lparr> prom_metrics = [''mqtt_a_b'' \<mapsto> [''home_lamp'' \<mapsto> VFloat 5],
                                 ''mqtt_on'' \<mapsto> [''home_lamp'' \<mapsto> VFloat 1]],
               prom_msg_counter = Map.empty \<rparr>"
    using conjunct1 [OF r] by (simp only: sample_extraction)
  show ?thesis
    apply (intro conjI)
        apply (rule sample_fail)
       apply (rule d)
      apply (rule sample_extraction)
     apply (rule e)
    apply (simp add: gauge_value_def)
    done
qed

subsection \<open>Ingesting a message twice\<close>

lemma counter_inc_metrics: "prom_metrics (counter_inc t st) = prom_metrics st"
  by (simp add: counter_inc_def)

lemma counter_inc_value:
  "counter_value (counter_inc t st) t' = (if t' = t then counter_value st t + 1 else counter_value st t')"
  by (simp add: counter_inc_def counter_value_def split: option.splits)




text \<open>
  A message that reaches the extractor: the callback raises what the extractor raises,
  and counts the message when the extractor returns.
\<close>

lemma expose_metrics_mapping:
  assumes "topic \<notin> set (IGNORED_TOPICS C)"
    and "parse_message L topic payload = Inr (Some t1, Some (Mapping data))"
    and "t1 \<noteq> []" and "data \<noteq> []"
  shows "expose_metrics L C topic payload st
           = (case apply_writes L t1 (leaf_writes L C data []) st of
                Inl raised \<Rightarrow> Inl raised
              | Inr sx \<Rightarrow> Inr (counter_inc t1 sx))"
  using assms by (simp add: expose_metrics_def parse_metrics_writes)



lemma sample_message:
  "parse_message sample_lib ''home/lamp'' lamp_payload
     = Inr (Some ''home_lamp'', Some (Mapping lamp_data))"
  by (simp add: parse_message_def normalize_def sample_lib_def sample_loads_def
        replace_char_def lamp_payload_def lamp_data_def)

lemma sample_not_ignored: "''home/lamp'' \<notin> set (IGNORED_TOPICS default_config)"
  by (simp add: default_ignored)


lemma sample_second_ingestion:
  "expose_metrics sample_lib default_config ''home/lamp'' lamp_payload
       \<lparr> prom_metrics = [''mqtt_a_b'' \<mapsto> [''home_lamp'' \<mapsto> VFloat 5],
                         ''mqtt_on'' \<mapsto> [''home_lamp'' \<mapsto> VFloat 1]],
         prom_msg_counter = [''home_lamp'' \<mapsto> 1] \<rparr>
     = Inr \<lparr> prom_metrics = [''mqtt_a_b'' \<mapsto> [''home_lamp'' \<mapsto> VFloat 5],
                               ''mqtt_on'' \<mapsto> [''home_lamp'' \<mapsto> VFloat 1]],
             prom_msg_counter = [''home_lamp'' \<mapsto> 2] \<rparr>"
  by (simp add: expose_metrics_def sample_message sample_not_ignored lamp_data_def
        counter_inc_def sample_names sample_parse_str sample_accepts sample_floats
        gauge_set_def create_metric_def numeral_2_eq_2)



subsection \<open>The message counter\<close>

lemma parse_message_raises:
  "normalize L topic payload = Inl e \<Longrightarrow> parse_message L topic payload = Inl e"
  by (simp add: parse_message_def)

lemma parse_message_mapping:
  assumes "normalize L topic payload = Inr (t0, p0)"
    and "json_loads L p0 = Inr (VDict data)"
  shows "parse_message L topic payload
           = Inr (Some (replace_char CHR ''/'' CHR ''_'' t0), Some (Mapping data))"
  using assms by (simp add: parse_message_def)

lemma parse_message_undecoded:
  assumes "normalize L topic payload = Inr (t0, p0)"
    and "json_loads L p0 = Inl JSONDecodeError \<or> json_loads L p0 = Inl UnicodeDecodeError"
  shows "parse_message L topic payload = Inr (None, None)"
  using assms by (auto simp: parse_message_def)

lemma parse_message_scalar:
  assumes "normalize L topic payload = Inr (t0, p0)"
    and "json_loads L p0 = Inr v" and "\<not> is_dict v"
  shows "parse_message L topic payload
           = Inr (Some (replace_char CHR ''/'' CHR ''_'' t0),
                  Some (Dumped (json_dumps L
                    (VDict [(last (split_str CHR ''/'' (replace_char CHR ''/'' CHR ''_'' t0)), v)]))))"
  using assms by (cases v) (simp_all add: parse_message_def Let_def)

lemma replace_char_empty: "replace_char a b s = [] \<longleftrightarrow> s = []"
  by (simp add: replace_char_def)

text \<open>
  Claim C3, as the code has it, for a message that is not ignored. Let \<open>t\<close> be the
  rewritten topic: the topic \<open>t0\<close> that normalisation returns, with every slash
  replaced by an underscore.
  \<^item> When the payload decodes to a non-empty mapping and \<open>t0\<close> is not empty, the
    message is counted exactly when the extractor returns: then ingestion returns, the
    counter of \<open>t\<close> is one more than before and every other counter is as before. In
    particular the message is counted when every field fails coercion (the extractor
    has nothing to write). When the extractor raises (the constructor of a gauge or
    the set refuses), the exception leaves the callback and no counter has changed.
  \<^item> When the payload decodes to the empty mapping, ingestion returns with the state
    unchanged: the message is not counted.
  \<^item> When the payload decodes to a value that is not a mapping (and \<^verbatim>\<open>json.dumps\<close>
    gives a non-empty text, as it always does), ingestion raises \<^verbatim>\<open>AttributeError\<close>
    with the state unchanged.
  \<^item> When \<^verbatim>\<open>json.loads\<close> raises \<^verbatim>\<open>JSONDecodeError\<close> or \<^verbatim>\<open>UnicodeDecodeError\<close>,
    ingestion returns with the state unchanged: no counter is incremented, no gauge
    created or set. When normalisation itself raises (a payload of the Shelly family
    that is not UTF-8), the exception leaves the callback with the state unchanged.
\<close>

theorem counter_after_decode:
  assumes "topic \<notin> set (IGNORED_TOPICS C)"
  shows "(normalize L topic payload = Inr (t0, p0) \<and> json_loads L p0 = Inr (VDict data)
            \<and> data \<noteq> [] \<and> t0 \<noteq> []
            \<and> parse_metrics L C data (replace_char CHR ''/'' CHR ''_'' t0) [] st = Inr sx \<longrightarrow>
            (\<exists>st1. expose_metrics L C topic payload st = Inr st1
               \<and> prom_metrics st1 = prom_metrics sx
               \<and> counter_value st1 (replace_char CHR ''/'' CHR ''_'' t0)
                   = counter_value st (replace_char CHR ''/'' CHR ''_'' t0) + 1
               \<and> (\<forall>t'. t' \<noteq> replace_char CHR ''/'' CHR ''_'' t0 \<longrightarrow>
                      counter_value st1 t' = counter_value st t')))
       \<and> (normalize L topic payload = Inr (t0, p0) \<and> json_loads L p0 = Inr (VDict data)
            \<and> data \<noteq> [] \<and> t0 \<noteq> []
            \<and> leaf_writes L C data [] = [] \<longrightarrow>
            expose_metrics L C topic payload st
              = Inr (counter_inc (replace_char CHR ''/'' CHR ''_'' t0) st))
       \<and> (normalize L topic payload = Inr (t0, p0) \<and> json_loads L p0 = Inr (VDict data)
            \<and> data \<noteq> [] \<and> t0 \<noteq> []
            \<and> parse_metrics L C data (replace_char CHR ''/'' CHR ''_'' t0) [] st = Inl (e, sx) \<longrightarrow>
            expose_metrics L C topic payload st = Inl (e, sx)
            \<and> (\<forall>t'. counter_value sx t' = counter_value st t'))
       \<and> (normalize L topic payload = Inr (t0, p0) \<and> json_loads L p0 = Inr (VDict []) \<longrightarrow>
            expose_metrics L C topic payload st = Inr st)
       \<and> (normalize L topic payload = Inr (t0, p0) \<and> json_loads L p0 = Inr v \<and> \<not> is_dict v
            \<and> t0 \<noteq> []
            \<and> json_dumps L (VDict [(last (split_str CHR ''/'' (replace_char CHR ''/'' CHR ''_'' t0)), v)]) \<noteq> [] \<longrightarrow>
            expose_metrics L C topic payload st = Inl (AttributeError, st))
       \<and> (normalize L topic payload = Inr (t0, p0)
            \<and> (json_loads L p0 = Inl JSONDecodeError \<or> json_loads L p0 = Inl UnicodeDecodeError) \<longrightarrow>
            expose_metrics L C topic payload st = Inr st)
       \<and> (normalize L topic payload = Inl e' \<longrightarrow>
            expose_metrics L C topic payload st = Inl (e', st))"
proof (intro conjI impI)
  let ?t = "replace_char CHR ''/'' CHR ''_'' t0"
  {
    assume h: "normalize L topic payload = Inr (t0, p0) \<and> json_loads L p0 = Inr (VDict data)
            \<and> data \<noteq> [] \<and> t0 \<noteq> []
            \<and> parse_metrics L C data ?t [] st = Inr sx"
    then have m: "parse_message L topic payload = Inr (Some ?t, Some (Mapping data))"
      by (simp add: parse_message_mapping)
    from h have a: "apply_writes L ?t (leaf_writes L C data []) st = Inr sx"
      by (simp only: parse_metrics_writes)
    from h have e: "expose_metrics L C topic payload st = Inr (counter_inc ?t sx)"
      by (simp add: expose_metrics_mapping [OF assms m] replace_char_empty a)
    have c: "counter_value sx t' = counter_value st t'" for t'
      using apply_writes_counter [of L ?t "leaf_writes L C data []" st] a
      by (simp add: counter_value_def)
    show "\<exists>st1. expose_metrics L C topic payload st = Inr st1
               \<and> prom_metrics st1 = prom_metrics sx
               \<and> counter_value st1 ?t = counter_value st ?t + 1
               \<and> (\<forall>t'. t' \<noteq> ?t \<longrightarrow> counter_value st1 t' = counter_value st t')"
      unfolding e by (simp add: counter_inc_value counter_inc_metrics c)
  }
  {
    assume h: "normalize L topic payload = Inr (t0, p0) \<and> json_loads L p0 = Inr (VDict data)
            \<and> data \<noteq> [] \<and> t0 \<noteq> []
            \<and> leaf_writes L C data [] = []"
    then have m: "parse_message L topic payload = Inr (Some ?t, Some (Mapping data))"
      by (simp add: parse_message_mapping)
    from h show "expose_metrics L C topic payload st = Inr (counter_inc ?t st)"
      by (simp add: expose_metrics_mapping [OF assms m] replace_char_empty)
  }
  {
    assume h: "normalize L topic payload = Inr (t0, p0) \<and> json_loads L p0 = Inr (VDict data)
            \<and> data \<noteq> [] \<and> t0 \<noteq> []
            \<and> parse_metrics L C data ?t [] st = Inl (e, sx)"
    then have m: "parse_message L topic payload = Inr (Some ?t, Some (Mapping data))"
      by (simp add: parse_message_mapping)
    from h have a: "apply_writes L ?t (leaf_writes L C data []) st = Inl (e, sx)"
      by (simp only: parse_metrics_writes)
    from h show "expose_metrics L C topic payload st = Inl (e, sx)"
      by (simp add: expose_metrics_mapping [OF assms m] replace_char_empty a)
    show "\<forall>t'. counter_value sx t' = counter_value st t'"
      using apply_writes_counter [of L ?t "leaf_writes L C data []" st] a
      by (simp add: counter_value_def)
  }
  {
    assume "normalize L topic payload = Inr (t0, p0) \<and> json_loads L p0 = Inr (VDict [])"
    then have "parse_message L topic payload = Inr (Some ?t, Some (Mapping []))"
      by (simp add: parse_message_mapping)
    then show "expose_metrics L C topic payload st = Inr st"
      using assms by (simp add: expose_metrics_def)
  }
  {
    assume h: "normalize L topic payload = Inr (t0, p0) \<and> json_loads L p0 = Inr v \<and> \<not> is_dict v
            \<and> t0 \<noteq> []
            \<and> json_dumps L (VDict [(last (split_str CHR ''/'' ?t), v)]) \<noteq> []"
    then have "parse_message L topic payload
           = Inr (Some ?t, Some (Dumped (json_dumps L (VDict [(last (split_str CHR ''/'' ?t), v)]))))"
      by (simp add: parse_message_scalar)
    with h show "expose_metrics L C topic payload st = Inl (AttributeError, st)"
      using assms by (simp add: expose_metrics_def replace_char_empty)
  }
  {
    assume "normalize L topic payload = Inr (t0, p0)
            \<and> (json_loads L p0 = Inl JSONDecodeError \<or> json_loads L p0 = Inl UnicodeDecodeError)"
    then have "parse_message L topic payload = Inr (None, None)"
      using parse_message_undecoded [of L topic payload t0 p0] by blast
    then show "expose_metrics L C topic payload st = Inr st"
      using assms by (simp add: expose_metrics_def)
  }
  {
    assume "normalize L topic payload = Inl e'"
    then have "parse_message L topic payload = Inl e'" by (rule parse_message_raises)
    then show "expose_metrics L C topic payload st = Inl (e', st)"
      using assms by (simp add: expose_metrics_def)
  }
qed

lemma sample_normalize:
  "normalize sample_lib ''home/lamp'' payload = Inr (''home/lamp'', PBytes payload)"
  by (simp add: normalize_def)

lemma sample_loads_lamp: "json_loads sample_lib (PBytes lamp_payload) = Inr (VDict lamp_data)"
  by (simp add: sample_lib_def sample_loads_def lamp_payload_def lamp_data_def)

lemma sample_loads_empty: "json_loads sample_lib (PBytes ''{}'') = Inr (VDict [])"
  by (simp add: sample_lib_def sample_loads_def)

lemma sample_loads_invalid:
  "json_loads sample_lib (PBytes ''not valid json'') = Inl JSONDecodeError"
  by (simp add: sample_lib_def sample_loads_def)

lemma sample_loads_clash:
  "json_loads sample_lib (PBytes ''{\"message_total\": 1}'')
     = Inr (VDict [(''message_total'', VInt 1)])"
  by (simp add: sample_lib_def sample_loads_def)

lemma home_lamp_rewritten: "replace_char CHR ''/'' CHR ''_'' ''home/lamp'' = ''home_lamp''"
  by (simp add: replace_char_def)

text \<open>
  Two messages with a payload that decodes and that are not counted, with the default
  configuration and the empty exporter. The empty mapping is falsy in
  \<^verbatim>\<open>if not topic or not payload\<close>. The field \<^verbatim>\<open>message_total\<close> resolves to the name of
  the counter of line 40, which the constructor of the gauge refuses: \<^verbatim>\<open>ValueError\<close>
  leaves the callback before line 179.
\<close>

theorem decoded_and_not_counted:
  "''home/lamp'' \<notin> set (IGNORED_TOPICS default_config)
   \<and> json_loads sample_lib (PBytes ''{}'') = Inr (VDict [])
   \<and> expose_metrics sample_lib default_config ''home/lamp'' ''{}'' (init_exporter :: real exporter)
       = Inr init_exporter
   \<and> json_loads sample_lib (PBytes ''{\"message_total\": 1}'')
       = Inr (VDict [(''message_total'', VInt 1)])
   \<and> expose_metrics sample_lib default_config ''home/lamp'' ''{\"message_total\": 1}''
         (init_exporter :: real exporter)
       = Inl (ValueError, init_exporter)
   \<and> counter_value (init_exporter :: real exporter) ''home_lamp'' = 0"
  by (simp add: expose_metrics_def parse_message_def sample_normalize sample_loads_empty
        sample_loads_clash default_ignored counter_value_def home_lamp_rewritten
        sample_names sample_accepts create_metric_def)
     (simp add: init_exporter_def)

theorem counter_after_decode_witness:
  "''home/lamp'' \<notin> set (IGNORED_TOPICS default_config)
   \<and> normalize sample_lib ''home/lamp'' lamp_payload = Inr (''home/lamp'', PBytes lamp_payload)
   \<and> json_loads sample_lib (PBytes lamp_payload) = Inr (VDict lamp_data)
   \<and> lamp_data \<noteq> []
   \<and> (\<exists>sx. parse_metrics sample_lib default_config lamp_data ''home_lamp'' []
               (init_exporter :: real exporter) = Inr sx)
   \<and> (\<exists>st1. expose_metrics sample_lib default_config ''home/lamp'' lamp_payload
                (init_exporter :: real exporter) = Inr st1
          \<and> counter_value st1 ''home_lamp'' = 1)
   \<and> json_loads sample_lib (PBytes ''not valid json'') = Inl JSONDecodeError
   \<and> expose_metrics sample_lib default_config ''home/lamp'' ''not valid json''
        (init_exporter :: real exporter) = Inr init_exporter"
proof -
  have d: "lamp_data \<noteq> []" by (simp add: lamp_data_def)
  have z: "counter_value (init_exporter :: real exporter) ''home_lamp'' = 0"
    by (simp add: counter_value_def init_exporter_def)
  have x: "parse_metrics sample_lib default_config lamp_data ''home_lamp'' []
               (init_exporter :: real exporter)
             = Inr \<lparr> prom_metrics = [''mqtt_a_b'' \<mapsto> [''home_lamp'' \<mapsto> VFloat 5],
                                       ''mqtt_on'' \<mapsto> [''home_lamp'' \<mapsto> VFloat 1]],
                     prom_msg_counter = Map.empty \<rparr>"
    using sample_extraction by (simp only: lamp_data_def append.simps)
  note t = counter_after_decode [OF sample_not_ignored, of sample_lib]
  from t [of lamp_payload "''home/lamp''" "PBytes lamp_payload" lamp_data init_exporter,
      THEN conjunct1]
  have one: "\<exists>st1. expose_metrics sample_lib default_config ''home/lamp'' lamp_payload
                (init_exporter :: real exporter) = Inr st1
          \<and> counter_value st1 ''home_lamp'' = 1"
    by (simp only: sample_normalize sample_loads_lamp home_lamp_rewritten z x) (use d in auto)
  from t [of "''not valid json''" "''home/lamp''" "PBytes ''not valid json''" _ init_exporter]
  have two: "expose_metrics sample_lib default_config ''home/lamp'' ''not valid json''
        (init_exporter :: real exporter) = Inr init_exporter"
    by (simp only: sample_normalize sample_loads_invalid) simp
  from x have ex: "\<exists>sx. parse_metrics sample_lib default_config lamp_data ''home_lamp'' []
               (init_exporter :: real exporter) = Inr sx" by blast
  show ?thesis
    apply (intro conjI)
           apply (rule sample_not_ignored)
          apply (rule sample_normalize)
         apply (rule sample_loads_lamp)
        apply (rule d)
       apply (rule ex)
      apply (rule one)
     apply (rule sample_loads_invalid)
    apply (rule two)
    done
qed

subsection \<open>A message of the Shelly family\<close>

lemma shelly_normalize:
  assumes "bytes_decode L payload = Some text"
  shows "normalize L ''shellies/kitchen/temperature'' payload
           = Inr (''shellies/kitchen'', PStr (json_dumps L (VDict [(''temperature'', VStr text)])))"
  using assms by (simp add: normalize_def normalize_shelly_msg_def)

lemma shelly_rewritten: "replace_char CHR ''/'' CHR ''_'' ''shellies/kitchen'' = ''shellies_kitchen''"
  by (simp add: replace_char_def)

lemma shelly_parse_message:
  assumes "bytes_decode L payload = Some text"
    and "json_loads L (PStr (json_dumps L (VDict [(''temperature'', VStr text)])))
           = Inr (VDict [(''temperature'', VStr text)])"
  shows "parse_message L ''shellies/kitchen/temperature'' payload
           = Inr (Some ''shellies_kitchen'', Some (Mapping [(''temperature'', VStr text)]))"
  using parse_message_mapping [OF shelly_normalize [OF assms(1)] assms(2)]
  by (simp only: shelly_rewritten)

lemma float_of_text:
  "str_upper L ''20.5'' = ''20.5'' \<Longrightarrow> float_of_str L ''20.5'' = Some f \<Longrightarrow>
     parse_metric L (VStr ''20.5'') = Inr (VFloat f)"
  by (simp add: parse_str_def STATE_VALUES_def)

lemma put_value: "gauge_value (counter_inc t (put n t f st)) n t = Some (VFloat f)"
  by (simp add: gauge_value_def counter_inc_def put_def)

lemma put_other:
  "t' \<noteq> t \<Longrightarrow> gauge_value (counter_inc t (put n t f st)) m t' = gauge_value st m t'"
  by (simp add: gauge_value_def counter_inc_def put_def gauge_of_def split: option.splits)

lemma put_counted:
  "counter_value (counter_inc t (put n t f st)) t = counter_value st t + 1"
  by (simp add: counter_value_def counter_inc_def put_def split: option.splits)

text \<open>
  Claim C4, as the code has it. Topic \<^verbatim>\<open>shellies/kitchen/temperature\<close> with raw payload
  \<^verbatim>\<open>20.5\<close>, not ignored, where the library decodes the bytes to the text \<^verbatim>\<open>20.5\<close>,
  reads back the JSON text it wrote for the one-entry mapping, upper-cases the text
  \<^verbatim>\<open>20.5\<close> to itself, parses it to the float \<open>f\<close>, and accepts a gauge of the name of
  field \<^verbatim>\<open>temperature\<close>: ingestion returns; the gauge of field \<^verbatim>\<open>temperature\<close> has the
  value \<open>f\<close> under the label value \<^verbatim>\<open>shellies_kitchen\<close> (the first two segments joined by
  a slash, then every slash replaced by an underscore, line 140); no gauge changes under
  the label value \<^verbatim>\<open>shellies/kitchen\<close>; the counter of \<^verbatim>\<open>shellies_kitchen\<close> is one more.
\<close>

theorem shelly_message_gauge:
  assumes "''shellies/kitchen/temperature'' \<notin> set (IGNORED_TOPICS C)"
    and "bytes_decode L ''20.5'' = Some ''20.5''"
    and "json_loads L (PStr (json_dumps L (VDict [(''temperature'', VStr ''20.5'')])))
           = Inr (VDict [(''temperature'', VStr ''20.5'')])"
    and "float_of_str L ''20.5'' = Some f"
    and "str_upper L ''20.5'' = ''20.5''"
    and "gauge_new L (metric_name C [] ''temperature'')"
  shows "\<exists>st1. expose_metrics L C ''shellies/kitchen/temperature'' ''20.5'' st = Inr st1
           \<and> gauge_value st1 (metric_name C [] ''temperature'') ''shellies_kitchen'' = Some (VFloat f)
           \<and> (\<forall>n. gauge_value st1 n ''shellies/kitchen'' = gauge_value st n ''shellies/kitchen'')
           \<and> counter_value st1 ''shellies_kitchen'' = counter_value st ''shellies_kitchen'' + 1"
proof -
  let ?t = "''shellies_kitchen''"
  let ?n = "metric_name C [] ''temperature''"
  let ?st1 = "counter_inc ?t (put ?n ?t f st)"
  have m: "parse_message L ''shellies/kitchen/temperature'' ''20.5''
             = Inr (Some ?t, Some (Mapping [(''temperature'', VStr ''20.5'')]))"
    by (rule shelly_parse_message [OF assms(2) assms(3)])
  have w: "leaf_writes L C [(''temperature'', VStr ''20.5'')] [] = [(?n, VFloat f)]"
    using float_of_text [OF assms(5) assms(4)] by (simp del: parse_metric.simps)
  have "write_metric L ?n ?t (VFloat f) st = Inr (put ?n ?t f st)"
    using assms(6) by (simp add: write_metric_returns)
  then have a: "apply_writes L ?t [(?n, VFloat f)] st = Inr (put ?n ?t f st)"
    by simp
  have e: "expose_metrics L C ''shellies/kitchen/temperature'' ''20.5'' st = Inr ?st1"
    using expose_metrics_mapping [OF assms(1) m, of st] by (simp only: w a) simp
  have ne: "''shellies/kitchen'' \<noteq> ?t" by simp
  have "gauge_value ?st1 ?n ?t = Some (VFloat f)
        \<and> (\<forall>n. gauge_value ?st1 n ''shellies/kitchen'' = gauge_value st n ''shellies/kitchen'')
        \<and> counter_value ?st1 ?t = counter_value st ?t + 1"
    by (simp only: put_value put_counted put_other [OF ne]) simp
  with e show ?thesis by blast
qed

lemma sample_shelly_decode: "bytes_decode sample_lib ''20.5'' = Some ''20.5''"
  by (simp add: sample_lib_def sample_decode_def)

lemma sample_shelly_loads:
  "json_loads sample_lib (PStr (json_dumps sample_lib (VDict [(''temperature'', VStr ''20.5'')])))
     = Inr (VDict [(''temperature'', VStr ''20.5'')])"
  by (simp add: sample_lib_def sample_loads_def sample_dumps_def)

lemma sample_shelly_float: "float_of_str sample_lib ''20.5'' = Some 20.5"
  by (simp add: sample_lib_def sample_float_def)

lemma sample_shelly_upper: "str_upper sample_lib ''20.5'' = ''20.5''"
  by (simp add: sample_lib_def sample_upper_def long_s_false_def ascii_upper_def
        ascii_upper_char_def)

lemma sample_shelly_not_ignored:
  "''shellies/kitchen/temperature'' \<notin> set (IGNORED_TOPICS default_config)"
  by (simp add: default_ignored)

lemma sample_shelly_gauge: "gauge_new sample_lib (metric_name default_config [] ''temperature'')"
  by (simp only: sample_names sample_accepts)

text \<open>
  With the default configuration and the empty exporter: the state after the message
  holds the one gauge \<^verbatim>\<open>mqtt_temperature\<close> with the one label value
  \<^verbatim>\<open>shellies_kitchen\<close>, and nothing under \<^verbatim>\<open>shellies/kitchen\<close>.
\<close>

theorem shelly_label_is_rewritten:
  "expose_metrics sample_lib default_config ''shellies/kitchen/temperature'' ''20.5''
       (init_exporter :: real exporter)
     = Inr \<lparr> prom_metrics = [''mqtt_temperature'' \<mapsto> [''shellies_kitchen'' \<mapsto> VFloat 20.5]],
             prom_msg_counter = [''shellies_kitchen'' \<mapsto> 1] \<rparr>
   \<and> gauge_value \<lparr> prom_metrics = [''mqtt_temperature'' \<mapsto> [''shellies_kitchen'' \<mapsto> VFloat (20.5 :: real)]],
                   prom_msg_counter = [''shellies_kitchen'' \<mapsto> 1] \<rparr>
        ''mqtt_temperature'' ''shellies/kitchen'' = None
   \<and> gauge_value \<lparr> prom_metrics = [''mqtt_temperature'' \<mapsto> [''shellies_kitchen'' \<mapsto> VFloat (20.5 :: real)]],
                   prom_msg_counter = [''shellies_kitchen'' \<mapsto> 1] \<rparr>
        ''mqtt_temperature'' ''shellies_kitchen'' = Some (VFloat 20.5)"
proof -
  have m: "parse_message sample_lib ''shellies/kitchen/temperature'' ''20.5''
             = Inr (Some ''shellies_kitchen'', Some (Mapping [(''temperature'', VStr ''20.5'')]))"
    by (rule shelly_parse_message [OF sample_shelly_decode sample_shelly_loads])
  have e: "expose_metrics sample_lib default_config ''shellies/kitchen/temperature'' ''20.5''
             (init_exporter :: real exporter)
           = Inr \<lparr> prom_metrics = [''mqtt_temperature'' \<mapsto> [''shellies_kitchen'' \<mapsto> VFloat 20.5]],
                   prom_msg_counter = [''shellies_kitchen'' \<mapsto> 1] \<rparr>"
    by (simp add: expose_metrics_def m sample_shelly_not_ignored sample_names sample_parse_str
          sample_accepts counter_inc_def gauge_set_def create_metric_def init_exporter_def)
  show ?thesis
    by (simp add: e gauge_value_def)
qed

theorem shelly_message_gauge_witness:
  "''shellies/kitchen/temperature'' \<notin> set (IGNORED_TOPICS default_config)
   \<and> bytes_decode sample_lib ''20.5'' = Some ''20.5''
   \<and> json_loads sample_lib (PStr (json_dumps sample_lib (VDict [(''temperature'', VStr ''20.5'')])))
        = Inr (VDict [(''temperature'', VStr ''20.5'')])
   \<and> float_of_str sample_lib ''20.5'' = Some 20.5
   \<and> str_upper sample_lib ''20.5'' = ''20.5''
   \<and> gauge_new sample_lib (metric_name default_config [] ''temperature'')
   \<and> (\<exists>st1. expose_metrics sample_lib default_config ''shellies/kitchen/temperature'' ''20.5''
               (init_exporter :: real exporter) = Inr st1
           \<and> gauge_value st1 ''mqtt_temperature'' ''shellies_kitchen'' = Some (VFloat 20.5)
           \<and> (\<forall>n. gauge_value st1 n ''shellies/kitchen''
                     = gauge_value (init_exporter :: real exporter) n ''shellies/kitchen'')
           \<and> counter_value st1 ''shellies_kitchen''
               = counter_value (init_exporter :: real exporter) ''shellies_kitchen'' + 1)"
proof -
  note r = shelly_message_gauge [OF sample_shelly_not_ignored sample_shelly_decode
             sample_shelly_loads sample_shelly_float sample_shelly_upper sample_shelly_gauge,
             of init_exporter]
  show ?thesis
    apply (intro conjI)
          apply (rule sample_shelly_not_ignored)
         apply (rule sample_shelly_decode)
        apply (rule sample_shelly_loads)
       apply (rule sample_shelly_float)
      apply (rule sample_shelly_upper)
     apply (rule sample_shelly_gauge)
    apply (rule r [unfolded sample_names])
    done
qed

subsection \<open>Metric names of field paths\<close>

lemma path_prefix_single: "path_prefix [k] = []"
  by (simp add: path_prefix_def)

lemma path_prefix_cons: "path_prefix (k # k' # ks) = k @ ''_'' @ path_prefix (k' # ks)"
  by (simp add: path_prefix_def)

lemma leaf_writes_leaf:
  assumes "\<not> is_dict v" and "parse_metric L v = Inr r"
  shows "leaf_writes L C [(k, v)] prefix = [(metric_name C prefix k, r)]"
  using assms by (cases v) (simp_all del: parse_metric.simps)

lemma leaf_writes_nested:
  assumes "\<not> is_dict v" and "parse_metric L v = Inr r" and "path \<noteq> []"
  shows "leaf_writes L C (nested path v) prefix
           = [(metric_name C (prefix @ path_prefix path) (last path), r)]"
  using assms(3)
proof (induction path arbitrary: prefix)
  case Nil
  then show ?case by simp
next
  case (Cons k ks)
  show ?case
  proof (cases ks)
    case Nil
    then show ?thesis
      using leaf_writes_leaf [OF assms(1) assms(2)] by (simp add: path_prefix_single)
  next
    case (Cons k' ks')
    have "leaf_writes L C (nested ks v) (prefix @ k @ ''_'')
            = [(metric_name C ((prefix @ k @ ''_'') @ path_prefix ks) (last ks), r)]"
      using Cons.IH Cons by simp
    then show ?thesis
      using Cons by (simp add: path_prefix_cons)
  qed
qed

lemma unsanitized_append:
  "unsanitized_key (x @ y) \<longleftrightarrow> unsanitized_key x \<and> unsanitized_key y"
  by (induction x) auto

lemma plain_key_append: "plain_key (x @ y) \<longleftrightarrow> plain_key x \<and> plain_key y"
  by (induction x) auto

lemma plain_unsanitized: "plain_key k \<Longrightarrow> unsanitized_key k"
  by (induction k) auto

lemma remove_char_append: "remove_char a (x @ y) = remove_char a x @ remove_char a y"
  by (simp add: remove_char_def)

lemma replace_char_append: "replace_char a b (x @ y) = replace_char a b x @ replace_char a b y"
  by (simp add: replace_char_def)

lemma remove_char_id: "unsanitized_key x \<Longrightarrow> remove_char CHR ''.'' x = x"
  by (induction x) (auto simp: remove_char_def)

lemma replace_char_id: "unsanitized_key x \<Longrightarrow> replace_char CHR '' '' CHR ''_'' x = x"
  by (induction x) (auto simp: replace_char_def)

lemma paren_end_none: "unsanitized_key x \<Longrightarrow> paren_end x = None"
  by (induction x) auto

lemma paren_end_append:
  "unsanitized_key x \<Longrightarrow> paren_end (p @ x) = map_option (\<lambda>r. r @ x) (paren_end p)"
  by (induction p) (auto simp: paren_end_none)

lemma re_sub_parens_id: "unsanitized_key x \<Longrightarrow> re_sub_parens x = x"
  by (induction x) auto

lemma re_sub_parens_append:
  "unsanitized_key x \<Longrightarrow> re_sub_parens (p @ x) = re_sub_parens p @ x"
proof (induction p rule: re_sub_parens.induct)
  case 1
  then show ?case by (simp add: re_sub_parens_id)
next
  case (2 c cs)
  then show ?case
    by (cases "paren_end cs") (auto simp: paren_end_append)
qed

lemma metric_name_unsanitized:
  assumes "unsanitized_key x"
  shows "metric_name C prefix (metric @ x) = metric_name C prefix metric @ x"
proof -
  have "remove_char CHR ''.'' (PREFIX C @ prefix @ metric @ x)
          = remove_char CHR ''.'' (PREFIX C @ prefix @ metric) @ x"
    using assms by (simp add: remove_char_append remove_char_id)
  then show ?thesis
    using assms
    by (simp add: metric_name_def replace_char_append replace_char_id re_sub_parens_append)
qed

lemma plain_key_set: "plain_key k \<Longrightarrow> \<forall>c\<in>set k. c \<noteq> CHR ''_''"
  by (induction k) auto

lemma first_key:
  assumes "plain_key k" and "r = [] \<or> hd r = CHR ''_''"
  shows "takeWhile (\<lambda>c. c \<noteq> CHR ''_'') (k @ r) = k"
proof -
  have "takeWhile (\<lambda>c. c \<noteq> CHR ''_'') r = []"
    using assms(2) by (cases r) auto
  then show ?thesis
    using plain_key_set [OF assms(1)] by simp
qed

lemma first_key_unique:
  assumes "plain_key k1" and "plain_key k2"
    and "r1 = [] \<or> hd r1 = CHR ''_''" and "r2 = [] \<or> hd r2 = CHR ''_''"
    and "k1 @ r1 = k2 @ r2"
  shows "k1 = k2 \<and> r1 = r2"
proof -
  have "k1 = takeWhile (\<lambda>c. c \<noteq> CHR ''_'') (k1 @ r1)"
    by (rule first_key [OF assms(1) assms(3), symmetric])
  also have "\<dots> = takeWhile (\<lambda>c. c \<noteq> CHR ''_'') (k2 @ r2)"
    by (simp only: assms(5))
  also have "\<dots> = k2"
    by (rule first_key [OF assms(2) assms(4)])
  finally have "k1 = k2" .
  with assms(5) show ?thesis by simp
qed

lemma joined_cons:
  "path_prefix (k # ks) @ last (k # ks)
     = k @ (if ks = [] then [] else CHR ''_'' # (path_prefix ks @ last ks))"
  by (cases ks) (simp_all add: path_prefix_def)

lemma joined_injective:
  assumes "plain_path p1" and "plain_path p2" and "p1 \<noteq> []" and "p2 \<noteq> []"
    and "path_prefix p1 @ last p1 = path_prefix p2 @ last p2"
  shows "p1 = p2"
  using assms
proof (induction p1 arbitrary: p2)
  case Nil
  then show ?case by simp
next
  case (Cons k1 ks1)
  from Cons.prems(4) obtain k2 ks2 where p2: "p2 = k2 # ks2"
    by (cases p2) auto
  let ?r1 = "if ks1 = [] then [] else CHR ''_'' # (path_prefix ks1 @ last ks1)"
  let ?r2 = "if ks2 = [] then [] else CHR ''_'' # (path_prefix ks2 @ last ks2)"
  have e: "k1 @ ?r1 = k2 @ ?r2"
    using Cons.prems(5) unfolding p2 by (simp only: joined_cons)
  have k: "plain_key k1" "plain_key k2" "plain_path ks1" "plain_path ks2"
    using Cons.prems(1,2) p2 by simp_all
  have "k1 = k2 \<and> ?r1 = ?r2"
    by (rule first_key_unique [OF k(1) k(2) _ _ e]) simp_all
  then have k12: "k1 = k2" and r12: "?r1 = ?r2" by blast+
  show ?case
  proof (cases "ks1 = []")
    case True
    with r12 have "ks2 = []" by (simp split: if_splits)
    with True k12 p2 show ?thesis by simp
  next
    case False
    with r12 have ne2: "ks2 \<noteq> []" by (simp split: if_splits)
    with False r12 have "path_prefix ks1 @ last ks1 = path_prefix ks2 @ last ks2" by simp
    from Cons.IH [OF k(3) k(4) False ne2 this] have "ks1 = ks2" .
    with k12 p2 show ?thesis by simp
  qed
qed

lemma plain_path_prefix: "plain_path p \<Longrightarrow> unsanitized_key (path_prefix p)"
proof (induction p)
  case Nil
  then show ?case by (simp add: path_prefix_def)
next
  case (Cons k ks)
  then show ?case
    by (cases ks) (simp_all add: path_prefix_single path_prefix_cons unsanitized_append plain_unsanitized)
qed

lemma plain_path_last: "plain_path p \<Longrightarrow> p \<noteq> [] \<Longrightarrow> unsanitized_key (last p)"
  by (induction p) (auto simp: plain_unsanitized)

lemma resolve_plain:
  assumes "plain_path p" and "p \<noteq> []"
  shows "resolve C p = metric_name C [] [] @ path_prefix p @ last p"
proof -
  have u: "unsanitized_key (path_prefix p @ last p)"
    using plain_path_prefix [OF assms(1)] plain_path_last [OF assms]
    by (simp add: unsanitized_append)
  have "resolve C p = metric_name C [] ([] @ path_prefix p @ last p)"
    by (simp add: resolve_def metric_name_def)
  also have "\<dots> = metric_name C [] [] @ path_prefix p @ last p"
    by (rule metric_name_unsanitized [OF u])
  finally show ?thesis .
qed

text \<open>
  Claim C6, as the code has it. Two different non-empty field paths whose keys hold no
  dot, space, parenthesis or underscore resolve to different metric names, under every
  configured prefix. The underscore is the separator the extractor puts between the
  keys of a path, and sanitisation leaves it alone.
\<close>

theorem resolve_injective_on_plain_paths:
  assumes "plain_path p1" and "plain_path p2" and "p1 \<noteq> []" and "p2 \<noteq> []"
    and "p1 \<noteq> p2"
  shows "resolve C p1 \<noteq> resolve C p2"
proof
  assume "resolve C p1 = resolve C p2"
  then have "path_prefix p1 @ last p1 = path_prefix p2 @ last p2"
    by (simp add: resolve_plain [OF assms(1) assms(3)] resolve_plain [OF assms(2) assms(4)])
  from joined_injective [OF assms(1) assms(2) assms(3) assms(4) this] assms(5)
  show False by simp
qed

text \<open>
  \<open>resolve\<close> is the name the extractor gives: on the payload that holds one coercible
  value at a field path, it writes that value to the gauge named \<open>resolve C path\<close>.
\<close>

lemma resolve_is_leaf_name:
  assumes "\<not> is_dict v" and "parse_metric L v = Inr r" and "path \<noteq> []"
  shows "leaf_writes L C (nested path v) [] = [(resolve C path, r)]"
  using leaf_writes_nested [OF assms, of C "[]"] by (simp add: resolve_def)

text \<open>
  The paths \<^verbatim>\<open>a\<close>, \<^verbatim>\<open>b\<close> and \<^verbatim>\<open>a_b\<close> differ, none of their characters is touched by
  sanitisation, and both resolve to \<^verbatim>\<open>mqtt_a_b\<close>: the payload with the value 1 at
  \<^verbatim>\<open>b\<close> under \<^verbatim>\<open>a\<close> and the payload with the value 1 at \<^verbatim>\<open>a_b\<close> set the same gauge.
\<close>

theorem resolve_collision:
  "resolve default_config [''a'', ''b''] = resolve default_config [''a_b'']
   \<and> [''a'', ''b''] \<noteq> [''a_b'']
   \<and> unsanitized_key ''a'' \<and> unsanitized_key ''b'' \<and> unsanitized_key ''a_b''
   \<and> parse_metrics sample_lib default_config [(''a'', VDict [(''b'', VInt 1)])] ''t'' []
         (init_exporter :: real exporter)
       = Inr \<lparr> prom_metrics = [''mqtt_a_b'' \<mapsto> [''t'' \<mapsto> VFloat 1]], prom_msg_counter = Map.empty \<rparr>
   \<and> parse_metrics sample_lib default_config [(''a_b'', VInt 1)] ''t'' []
         (init_exporter :: real exporter)
       = Inr \<lparr> prom_metrics = [''mqtt_a_b'' \<mapsto> [''t'' \<mapsto> VFloat 1]], prom_msg_counter = Map.empty \<rparr>"
  by (simp add: resolve_def path_prefix_def sample_names sample_accepts sample_floats
        gauge_set_def create_metric_def init_exporter_def)

theorem resolve_injective_on_plain_paths_witness:
  "plain_path [''a'', ''b''] \<and> plain_path [''a'', ''c''] \<and> [''a'', ''b''] \<noteq> ([] :: string list)
   \<and> [''a'', ''c''] \<noteq> ([] :: string list) \<and> [''a'', ''b''] \<noteq> [''a'', ''c'']
   \<and> resolve default_config [''a'', ''b''] \<noteq> resolve default_config [''a'', ''c'']
   \<and> resolve default_config [''a'', ''b''] = ''mqtt_a_b''
   \<and> resolve default_config [''a'', ''c''] = ''mqtt_a_c''"
proof -
  have a: "plain_path [''a'', ''b'']" by simp
  have b: "plain_path [''a'', ''c'']" by simp
  have c: "[''a'', ''b''] \<noteq> ([] :: string list)" by simp
  have d: "[''a'', ''c''] \<noteq> ([] :: string list)" by simp
  have e: "[''a'', ''b''] \<noteq> [''a'', ''c'']" by simp
  have f: "resolve default_config [''a'', ''b''] = ''mqtt_a_b''"
    by (simp add: resolve_def path_prefix_def metric_name_def default_prefix remove_char_def
          replace_char_def)
  have g: "resolve default_config [''a'', ''c''] = ''mqtt_a_c''"
    by (simp add: resolve_def path_prefix_def metric_name_def default_prefix remove_char_def
          replace_char_def)
  note r = resolve_injective_on_plain_paths [OF a b c d e, of default_config]
  show ?thesis
    apply (intro conjI)
           apply (rule a)
          apply (rule b)
         apply (rule c)
        apply (rule d)
       apply (rule e)
      apply (rule r)
     apply (rule f)
    apply (rule g)
    done
qed

subsection \<open>Messages on which ingestion raises\<close>

lemma sample_scalar_message:
  "parse_message sample_lib ''devices/sensor1'' ''42''
     = Inr (Some ''devices_sensor1'', Some (Dumped ''{\"devices_sensor1\": 42}''))"
  by (simp add: parse_message_def normalize_def sample_lib_def sample_loads_def
        sample_dumps_def replace_char_def)

text \<open>
  Claim C1, at its own example: JSON payload \<^verbatim>\<open>42\<close> on topic \<^verbatim>\<open>devices/sensor1\<close>, default
  configuration. \<^verbatim>\<open>_parse_message\<close> replaces the slashes of the topic before it splits
  the topic on slashes, so the key of the wrapping is the whole rewritten topic; and it
  returns the wrapping as the text made by \<^verbatim>\<open>json.dumps\<close>, on which \<^verbatim>\<open>_parse_metrics\<close>
  raises \<^verbatim>\<open>AttributeError\<close>. The state at the raise is the state at the call: no gauge
  is created and the counter is not incremented.
\<close>

theorem scalar_payload_raises:
  "json_loads sample_lib (PBytes ''42'') = Inr (VInt 42)
   \<and> parse_message sample_lib ''devices/sensor1'' ''42''
       = Inr (Some ''devices_sensor1'', Some (Dumped ''{\"devices_sensor1\": 42}''))
   \<and> expose_metrics sample_lib default_config ''devices/sensor1'' ''42'' st
       = Inl (AttributeError, st)"
  by (simp add: expose_metrics_def sample_scalar_message default_ignored)
     (simp add: sample_lib_def sample_loads_def)

theorem scalar_payload_raises_witness:
  "expose_metrics sample_lib default_config ''devices/sensor1'' ''42'' (init_exporter :: real exporter)
     = Inl (AttributeError, init_exporter)
   \<and> parse_message sample_lib ''devices/sensor1'' ''42''
       = Inr (Some ''devices_sensor1'', Some (Dumped ''{\"devices_sensor1\": 42}''))"
  using scalar_payload_raises [of init_exporter] by simp

lemma sample_shelly_undecodable:
  "normalize sample_lib ''shellies/kitchen/temperature'' [CHR 0xFF] = Inl UnicodeDecodeError"
  by (simp add: normalize_def normalize_shelly_msg_def sample_lib_def sample_decode_def)

lemma sample_shelly_message:
  "parse_message sample_lib ''shellies/kitchen/temperature'' [CHR 0xFF] = Inl UnicodeDecodeError"
  by (simp add: parse_message_def sample_shelly_undecodable)

text \<open>
  Claim C2, at two messages: a Shelly topic whose payload is not UTF-8 (the handler in
  \<^verbatim>\<open>_normalize_shelly_msg\<close> catches \<^verbatim>\<open>IndexError\<close> only), and a scalar JSON payload.
  In both an exception leaves \<^verbatim>\<open>expose_metrics\<close>.
\<close>

theorem ingestion_raises:
  "expose_metrics sample_lib default_config ''shellies/kitchen/temperature'' [CHR 0xFF] st
     = Inl (UnicodeDecodeError, st)
   \<and> expose_metrics sample_lib default_config ''devices/sensor1'' ''42'' st
     = Inl (AttributeError, st)"
  by (simp add: expose_metrics_def sample_shelly_message sample_scalar_message default_ignored)

theorem ingestion_raises_witness:
  "expose_metrics sample_lib default_config ''shellies/kitchen/temperature'' [CHR 0xFF]
       (init_exporter :: real exporter) = Inl (UnicodeDecodeError, init_exporter)
   \<and> expose_metrics sample_lib default_config ''devices/sensor1'' ''42''
       (init_exporter :: real exporter) = Inl (AttributeError, init_exporter)"
  using ingestion_raises [of init_exporter] by simp

text \<open>
  The extractor raises too, on a mapping: on a field that resolves to a name the
  registry holds already (here the counter's), and on an integer too large for a float.
  In the second message the gauge of the first field is set before the raise.
\<close>

lemma extractor_raises:
  "parse_metrics sample_lib default_config [(''message_total'', VInt 1)] ''t'' []
       (init_exporter :: real exporter)
     = Inl (ValueError, init_exporter)"
  "parse_metrics sample_lib default_config [(''on'', VInt 1), (''a_b'', VInt (10 ^ 400))] ''t'' []
       (init_exporter :: real exporter)
     = Inl (OverflowError,
            \<lparr> prom_metrics = [''mqtt_on'' \<mapsto> [''t'' \<mapsto> VFloat 1], ''mqtt_a_b'' \<mapsto> Map.empty],
              prom_msg_counter = Map.empty \<rparr>)"
proof -
  have big: "float_of_int sample_lib (10 ^ 400) = None"
    by (simp add: sample_lib_def sample_float_of_int_def)
  show "parse_metrics sample_lib default_config [(''message_total'', VInt 1)] ''t'' []
       (init_exporter :: real exporter)
     = Inl (ValueError, init_exporter)"
    by (simp add: sample_names sample_accepts create_metric_def init_exporter_def)
  show "parse_metrics sample_lib default_config [(''on'', VInt 1), (''a_b'', VInt (10 ^ 400))] ''t'' []
       (init_exporter :: real exporter)
     = Inl (OverflowError,
            \<lparr> prom_metrics = [''mqtt_on'' \<mapsto> [''t'' \<mapsto> VFloat 1], ''mqtt_a_b'' \<mapsto> Map.empty],
              prom_msg_counter = Map.empty \<rparr>)"
    using big
    by (simp add: sample_names sample_accepts sample_floats create_metric_def gauge_set_def
          init_exporter_def)
qed

subsection \<open>The ignore check\<close>










end
